theory Spec2Isabelle
  imports Main "HOL-Library.AList"
begin

section \<open>Python values and exceptions\<close>

text \<open>
  The values that cross the boundaries of \<^verbatim>\<open>entrypoints.py\<close>: what a command returns,
  what \<^verbatim>\<open>sys.exit\<close> receives, and the object stored in \<^verbatim>\<open>ctx.obj\<close>. A dict keeps
  its entries in insertion order, so it is an association list.
\<close>

datatype py_value =
    PyNone
  | PyBool bool
  | PyInt int
  | PyStr string
  | PyDict "(string \<times> py_value) list"

text \<open>
  Exception classes. The built-in ones and the two classes of the CLI library that
  \<^verbatim>\<open>main\<close> names are constructors of their own; every other class is \<open>Derived name bases\<close>.
  \<open>click.exceptions.Abort\<close> derives from \<open>RuntimeError\<close>, \<open>ClickException\<close> from
  \<open>Exception\<close>, \<open>UsageError\<close> from \<open>ClickException\<close>.
\<close>

datatype exc_class =
    BaseException
  | Exception
  | SystemExit
  | KeyboardInterrupt
  | RuntimeError
  | OSError
  | Abort
  | ClickException
  | UsageError
  | Derived string "exc_class list"

text \<open>The class itself followed by all the classes it inherits from.\<close>

fun ancestors :: "exc_class \<Rightarrow> exc_class list" where
  "ancestors BaseException = [BaseException]"
| "ancestors Exception = [Exception, BaseException]"
| "ancestors SystemExit = [SystemExit, BaseException]"
| "ancestors KeyboardInterrupt = [KeyboardInterrupt, BaseException]"
| "ancestors RuntimeError = [RuntimeError, Exception, BaseException]"
| "ancestors OSError = [OSError, Exception, BaseException]"
| "ancestors Abort = [Abort, RuntimeError, Exception, BaseException]"
| "ancestors ClickException = [ClickException, Exception, BaseException]"
| "ancestors UsageError = [UsageError, ClickException, Exception, BaseException]"
| "ancestors (Derived n bases) = Derived n bases # concat (map ancestors bases)"

text \<open>
  A raised exception: its class and its first argument (the message of an ordinary
  exception, the exit code of \<open>SystemExit\<close>).
\<close>

datatype py_exception = PyExc exc_class py_value

fun class_of :: "py_exception \<Rightarrow> exc_class" where
  "class_of (PyExc c a) = c"

text \<open>What an \<^verbatim>\<open>except C\<close> clause tests.\<close>

definition isinstance :: "py_exception \<Rightarrow> exc_class \<Rightarrow> bool" where
  "isinstance e c = List.member (ancestors (class_of e)) c"

section \<open>The logging module\<close>

text \<open>Severity levels are integers; a custom level may be any integer.\<close>

definition NOTSET :: int where "NOTSET = 0"
definition DEBUG :: int where "DEBUG = 10"
definition INFO :: int where "INFO = 20"
definition WARNING :: int where "WARNING = 30"
definition ERROR :: int where "ERROR = 40"

text \<open>
  The three loggers the file touches: the root logger (\<^verbatim>\<open>logging.getLogger()\<close>), the
  logger named \<^verbatim>\<open>datahub_actions\<close>, and the module's own logger
  \<^verbatim>\<open>logging.getLogger(__name__)\<close>, named \<^verbatim>\<open>datahub_actions.entrypoints\<close>. The dotted
  names fix the hierarchy.
\<close>

datatype logger_name = Root_logger | Datahub_logger | Module_logger

fun dotted_name :: "logger_name \<Rightarrow> string" where
  "dotted_name Root_logger = ''root''"
| "dotted_name Datahub_logger = ''datahub_actions''"
| "dotted_name Module_logger = ''datahub_actions.entrypoints''"

fun parent :: "logger_name \<Rightarrow> logger_name option" where
  "parent Root_logger = None"
| "parent Datahub_logger = Some Root_logger"
| "parent Module_logger = Some Datahub_logger"

text \<open>A logger followed by its parent, grandparent, and so on up to the root.\<close>

fun ancestry :: "logger_name \<Rightarrow> logger_name list" where
  "ancestry Root_logger = [Root_logger]"
| "ancestry Datahub_logger = [Datahub_logger, Root_logger]"
| "ancestry Module_logger = [Module_logger, Datahub_logger, Root_logger]"

record log_record =
  levelno :: int
  origin :: logger_name
  message :: string

text \<open>
  \<^verbatim>\<open>class LogFilter(logging.Filter)\<close>: the only filter class in use. Its
  \<^verbatim>\<open>filter\<close> method lets through the records with \<^verbatim>\<open>levelno <= level\<close>.
\<close>

datatype log_filter = LogFilter int

fun LogFilter_filter :: "log_filter \<Rightarrow> log_record \<Rightarrow> bool" where
  "LogFilter_filter (LogFilter level) record = (levelno record \<le> level)"

datatype stream = Stdout | Stderr

datatype handler_kind =
    StreamHandler stream
  | TimedRotatingFileHandler string string int int
    \<comment> \<open>filename, when, interval, backupCount\<close>

text \<open>Where a handler writes.\<close>

datatype sink = Console stream | LogFile string

fun sink_of :: "handler_kind \<Rightarrow> sink" where
  "sink_of (StreamHandler s) = Console s"
| "sink_of (TimedRotatingFileHandler filename when interval backupCount) = LogFile filename"

record handler =
  h_kind :: handler_kind
  h_level :: int
  h_filters :: "log_filter list"
  h_formatter :: "string option"

record logger =
  l_level :: int
  l_handlers :: "nat list"
  l_propagate :: bool

text \<open>
  Every effect is recorded in a trace, in the order it happens: each mutating call of
  the logging API, each call that logs a message and each record a handler writes, and
  each effect outside the logging tree.
\<close>

datatype logging_call =
    NewHandler nat handler_kind
  | AddFilter nat log_filter
  | SetFormatter nat string
  | HandlerSetLevel nat int
  | AddHandler logger_name nat
  | SetPropagate logger_name bool
  | LoggerSetLevel logger_name int

datatype event =
    Logging logging_call
  | GetEnv string
  | StartHttpServer int
  | Invoke py_value
  | LogCall logger_name int string
  | Emit sink log_record
  | Show py_exception
  | Echo string

fun is_logging_call :: "event \<Rightarrow> bool" where
  "is_logging_call (Logging c) = True"
| "is_logging_call e = False"

text \<open>
  The process state: the logger tree, the handler objects (handlers are shared, mutable
  objects, so loggers hold references into a store), the module-wide
  \<^verbatim>\<open>logging.disable\<close> level, and the trace.
\<close>

record world =
  loggers :: "logger_name \<Rightarrow> logger"
  handlers :: "nat \<Rightarrow> handler option"
  next_handler :: nat
  manager_disable :: int
  trace :: "event list"

definition record_event :: "event \<Rightarrow> world \<Rightarrow> world" where
  "record_event e w = w\<lparr>trace := trace w @ [e]\<rparr>"

text \<open>A sequence of statements, run in order.\<close>

definition exec :: "(world \<Rightarrow> world) list \<Rightarrow> world \<Rightarrow> world" where
  "exec stmts w = fold (\<lambda>stmt s. stmt s) stmts w"

subsection \<open>Configuration calls\<close>

text \<open>\<^verbatim>\<open>Handler.__init__\<close>: level \<open>NOTSET\<close>, no filters, no formatter.\<close>

definition new_handler :: "handler_kind \<Rightarrow> world \<Rightarrow> nat \<times> world" where
  "new_handler k w =
     (let h = next_handler w in
      (h, record_event (Logging (NewHandler h k))
            (w\<lparr>handlers := (handlers w)(h \<mapsto>
                   \<lparr>h_kind = k, h_level = NOTSET, h_filters = [], h_formatter = None\<rparr>),
               next_handler := Suc h\<rparr>)))"

definition update_handler :: "nat \<Rightarrow> (handler \<Rightarrow> handler) \<Rightarrow> world \<Rightarrow> world" where
  "update_handler h f w =
     (case handlers w h of
        None \<Rightarrow> w
      | Some x \<Rightarrow> w\<lparr>handlers := (handlers w)(h \<mapsto> f x)\<rparr>)"

definition update_logger :: "logger_name \<Rightarrow> (logger \<Rightarrow> logger) \<Rightarrow> world \<Rightarrow> world" where
  "update_logger n f w = w\<lparr>loggers := (loggers w)(n := f (loggers w n))\<rparr>"

definition addFilter :: "nat \<Rightarrow> log_filter \<Rightarrow> world \<Rightarrow> world" where
  "addFilter h flt w =
     record_event (Logging (AddFilter h flt))
       (update_handler h
          (\<lambda>x. if List.member (h_filters x) flt then x
               else x\<lparr>h_filters := h_filters x @ [flt]\<rparr>) w)"

definition handler_setLevel :: "nat \<Rightarrow> int \<Rightarrow> world \<Rightarrow> world" where
  "handler_setLevel h level w =
     record_event (Logging (HandlerSetLevel h level))
       (update_handler h (\<lambda>x. x\<lparr>h_level := level\<rparr>) w)"

definition setFormatter :: "nat \<Rightarrow> string \<Rightarrow> world \<Rightarrow> world" where
  "setFormatter h fmt w =
     record_event (Logging (SetFormatter h fmt))
       (update_handler h (\<lambda>x. x\<lparr>h_formatter := Some fmt\<rparr>) w)"

text \<open>\<^verbatim>\<open>Logger.addHandler\<close> appends the handler unless the logger already has it.\<close>

definition addHandler :: "logger_name \<Rightarrow> nat \<Rightarrow> world \<Rightarrow> world" where
  "addHandler n h w =
     record_event (Logging (AddHandler n h))
       (update_logger n
          (\<lambda>l. if List.member (l_handlers l) h then l
               else l\<lparr>l_handlers := l_handlers l @ [h]\<rparr>) w)"

definition set_propagate :: "logger_name \<Rightarrow> bool \<Rightarrow> world \<Rightarrow> world" where
  "set_propagate n b w =
     record_event (Logging (SetPropagate n b))
       (update_logger n (\<lambda>l. l\<lparr>l_propagate := b\<rparr>) w)"

definition logger_setLevel :: "logger_name \<Rightarrow> int \<Rightarrow> world \<Rightarrow> world" where
  "logger_setLevel n level w =
     record_event (Logging (LoggerSetLevel n level))
       (update_logger n (\<lambda>l. l\<lparr>l_level := level\<rparr>) w)"

subsection \<open>Dispatch of a record\<close>

text \<open>
  \<^verbatim>\<open>Logger.getEffectiveLevel\<close>: the first level different from \<open>NOTSET\<close> on the way
  up to the root, \<open>NOTSET\<close> if there is none.
\<close>

fun first_level :: "world \<Rightarrow> logger_name list \<Rightarrow> int" where
  "first_level w [] = NOTSET"
| "first_level w (c # cs) =
     (if l_level (loggers w c) \<noteq> 0 then l_level (loggers w c) else first_level w cs)"

definition getEffectiveLevel :: "world \<Rightarrow> logger_name \<Rightarrow> int" where
  "getEffectiveLevel w n = first_level w (ancestry n)"

definition isEnabledFor :: "world \<Rightarrow> logger_name \<Rightarrow> int \<Rightarrow> bool" where
  "isEnabledFor w n level =
     (if manager_disable w \<ge> level then False else level \<ge> getEffectiveLevel w n)"

text \<open>\<^verbatim>\<open>Handler.handle\<close>: the record is emitted if every filter of the handler passes it.\<close>

definition handler_handle :: "handler \<Rightarrow> log_record \<Rightarrow> event list" where
  "handler_handle x record =
     (if list_all (\<lambda>flt. LogFilter_filter flt record) (h_filters x)
      then [Emit (sink_of (h_kind x)) record] else [])"

text \<open>The inner loop of \<^verbatim>\<open>Logger.callHandlers\<close>, over the handlers of one logger.\<close>

fun offer :: "world \<Rightarrow> log_record \<Rightarrow> nat list \<Rightarrow> event list" where
  "offer w record [] = []"
| "offer w record (h # hs) =
     (case handlers w h of
        None \<Rightarrow> offer w record hs
      | Some x \<Rightarrow>
          (if levelno record \<ge> h_level x then handler_handle x record else [])
          @ offer w record hs)"

text \<open>
  The outer loop of \<^verbatim>\<open>Logger.callHandlers\<close>: walk up the hierarchy until a logger does
  not propagate; the second component counts the handlers found.
\<close>

fun walk :: "world \<Rightarrow> log_record \<Rightarrow> logger_name list \<Rightarrow> event list \<times> nat" where
  "walk w record [] = ([], 0)"
| "walk w record (c # cs) =
     (let hs = l_handlers (loggers w c);
          out = offer w record hs
      in if \<not> l_propagate (loggers w c) then (out, length hs)
         else (let (out', found) = walk w record cs
               in (out @ out', length hs + found)))"

text \<open>
  \<^verbatim>\<open>Logger.callHandlers\<close>: when no handler was found at all, the module's last-resort
  handler writes records of level \<open>WARNING\<close> and above to standard error.
\<close>

definition callHandlers :: "world \<Rightarrow> logger_name \<Rightarrow> log_record \<Rightarrow> event list" where
  "callHandlers w n record =
     (let (out, found) = walk w record (ancestry n)
      in if found = 0
         then (if levelno record \<ge> WARNING then [Emit (Console Stderr) record] else [])
         else out)"

text \<open>What \<^verbatim>\<open>Logger.log(level, msg)\<close> writes, and where.\<close>

definition emissions :: "world \<Rightarrow> logger_name \<Rightarrow> int \<Rightarrow> string \<Rightarrow> event list" where
  "emissions w n level msg =
     (if isEnabledFor w n level
      then callHandlers w n \<lparr>levelno = level, origin = n, message = msg\<rparr>
      else [])"

text \<open>The call itself is recorded too, whether or not anything is written.\<close>

definition logger_log :: "logger_name \<Rightarrow> int \<Rightarrow> string \<Rightarrow> world \<Rightarrow> world" where
  "logger_log n level msg w =
     w\<lparr>trace := trace w @ LogCall n level msg # emissions w n level msg\<rparr>"

definition logger_info :: "logger_name \<Rightarrow> string \<Rightarrow> world \<Rightarrow> world" where
  "logger_info n msg w = logger_log n INFO msg w"

definition logger_error :: "logger_name \<Rightarrow> string \<Rightarrow> world \<Rightarrow> world" where
  "logger_error n msg w = logger_log n ERROR msg w"

section \<open>The entry point\<close>

subsection \<open>Module level\<close>

definition BASE_LOGGING_FORMAT :: string where
  "BASE_LOGGING_FORMAT = ''[%(asctime)s] %(levelname)-8s {%(name)s:%(lineno)d} - %(message)s''"

definition LOGGING_FILE_LOCATION :: string where
  "LOGGING_FILE_LOCATION = ''/tmp/datahub/logs/actions/actions.out''"

definition MAX_CONTENT_WIDTH :: int where
  "MAX_CONTENT_WIDTH = 120"

text \<open>
  A fresh interpreter: the root logger has level \<open>WARNING\<close> and no handler, every other
  logger has level \<open>NOTSET\<close>, no handler, and propagates.
\<close>

definition fresh_interpreter :: world where
  "fresh_interpreter =
     \<lparr>loggers = (\<lambda>n. \<lparr>l_level = (if n = Root_logger then WARNING else NOTSET),
                       l_handlers = [], l_propagate = True\<rparr>),
      handlers = (\<lambda>h. None),
      next_handler = 0,
      manager_disable = 0,
      trace = []\<rparr>"

text \<open>
  \<^verbatim>\<open>logging.basicConfig(format=...)\<close>: when the root logger has no handler, it gets a
  stream handler on standard error with the given format; no level is passed, so the
  root level stays.
\<close>

definition basicConfig :: "string \<Rightarrow> world \<Rightarrow> world" where
  "basicConfig fmt w =
     (if l_handlers (loggers w Root_logger) = []
      then (let (h, w1) = new_handler (StreamHandler Stderr) w
            in exec [setFormatter h fmt, addHandler Root_logger h] w1)
      else w)"

text \<open>The state after the module has been imported (lines 28 to 37).\<close>

definition module_import :: world where
  "module_import = basicConfig BASE_LOGGING_FORMAT fresh_interpreter"

subsection \<open>What the file takes from outside\<close>

record format_options =
  line_wrap :: int
  truncate_vals :: int
  suppressed_paths :: "string list"
  show_vals :: bool

text \<open>
  The collaborators that are not part of the file are parameters:
  \<^verbatim>\<open>get_boolean_env_variable\<close> of the \<^verbatim>\<open>datahub\<close> package (key and default to value),
  whether opening the log file and binding the port fail (and with which exception),
  \<^verbatim>\<open>stackprinter.format\<close>, and the strings describing the package and the runtime.
\<close>

record runtime =
  get_boolean_env_variable :: "string \<Rightarrow> bool \<Rightarrow> bool"
  open_failure :: "string \<Rightarrow> py_exception option"
  bind_failure :: "int \<Rightarrow> py_exception option"
  stackprinter_format :: "py_exception \<Rightarrow> format_options \<Rightarrow> string"
  package_name :: string
  nice_version_name :: string
  package_version :: string
  package_file :: string
  sys_version :: string
  sys_executable :: string
  platform_platform :: string

subsection \<open>The group callback\<close>

text \<open>
  \<^verbatim>\<open>ctx.ensure_object(dict)\<close> keeps \<^verbatim>\<open>ctx.obj\<close> when it is a dict already and replaces
  it by an empty dict otherwise (the top-level context has no parent to search).
\<close>

fun ensure_object_dict :: "py_value \<Rightarrow> (string \<times> py_value) list" where
  "ensure_object_dict (PyDict d) = d"
| "ensure_object_dict v = []"

text \<open>
  \<^verbatim>\<open>def datahub_actions(ctx, enable_monitoring, monitoring_port, debug, detect_memory_leaks)\<close>,
  lines 87 to 136. The result is the exception raised, or the value of \<^verbatim>\<open>ctx.obj\<close> when
  the callback returns; the world is the one reached at that point. The constructor of
  the file handler opens the file, and \<^verbatim>\<open>start_http_server\<close> binds the port: both may
  raise. The environment is read inside the right operand of \<^verbatim>\<open>or\<close>, so only when
  \<^verbatim>\<open>debug\<close> is false.
\<close>

definition datahub_actions ::
  "runtime \<Rightarrow> py_value \<Rightarrow> bool \<Rightarrow> int \<Rightarrow> bool \<Rightarrow> bool \<Rightarrow> world
     \<Rightarrow> (py_exception + py_value) \<times> world" where
  "datahub_actions rt ctx_obj enable_monitoring monitoring_port debug detect_memory_leaks w0 =
     (let datahub_logger = Datahub_logger;
          formatter = BASE_LOGGING_FORMAT;
          (info_handler, w1) = new_handler (StreamHandler Stdout) w0;
          w2 = exec [addFilter info_handler (LogFilter INFO),
                     handler_setLevel info_handler INFO,
                     setFormatter info_handler formatter] w1;
          (error_handler, w3) = new_handler (StreamHandler Stderr) w2;
          w4 = exec [handler_setLevel error_handler WARNING,
                     setFormatter error_handler formatter] w3
      in case open_failure rt LOGGING_FILE_LOCATION of
           Some exc \<Rightarrow> (Inl exc, w4)
         | None \<Rightarrow>
            (let (file_handler, w5) =
                   new_handler (TimedRotatingFileHandler LOGGING_FILE_LOCATION ''midnight'' 1 10) w4;
                 w6 = exec [handler_setLevel file_handler INFO,
                            setFormatter file_handler formatter,
                            addHandler datahub_logger info_handler,
                            addHandler datahub_logger error_handler,
                            addHandler datahub_logger file_handler,
                            set_propagate datahub_logger False] w5;
                 (debug_on, w7) =
                   (if debug then (True, w6)
                    else (get_boolean_env_variable rt ''DATAHUB_DEBUG'' False,
                          record_event (GetEnv ''DATAHUB_DEBUG'') w6));
                 w8 = (if debug_on
                       then exec [logger_setLevel Root_logger INFO,
                                  handler_setLevel info_handler DEBUG,
                                  handler_setLevel file_handler DEBUG,
                                  logger_setLevel datahub_logger DEBUG] w7
                       else exec [logger_setLevel Root_logger WARNING,
                                  logger_setLevel datahub_logger INFO] w7)
             in if enable_monitoring
                then (case bind_failure rt monitoring_port of
                        Some exc \<Rightarrow> (Inl exc, w8)
                      | None \<Rightarrow>
                          (Inr (PyDict (AList.update ''detect_memory_leaks''
                                          (PyBool detect_memory_leaks)
                                          (ensure_object_dict ctx_obj))),
                           record_event (StartHttpServer monitoring_port) w8))
                else (Inr (PyDict (AList.update ''detect_memory_leaks''
                                     (PyBool detect_memory_leaks)
                                     (ensure_object_dict ctx_obj))),
                      w8)))"

subsection \<open>The command line\<close>

text \<open>
  The options as given on the command line, after tokenising: a flag is present or not,
  an option with a value is absent or carries its value, and \<^verbatim>\<open>--debug/--no-debug\<close> is
  absent, \<open>Some True\<close> or \<open>Some False\<close>.
\<close>

record cli_args =
  arg_enable_monitoring :: bool
  arg_monitoring_port :: "int option"
  arg_debug :: "bool option"
  arg_version :: bool
  arg_detect_memory_leaks :: bool

text \<open>The values the decorators (lines 58 to 85) hand to the callback.\<close>

definition enable_monitoring_of :: "cli_args \<Rightarrow> bool" where
  "enable_monitoring_of args = arg_enable_monitoring args"

definition monitoring_port_of :: "cli_args \<Rightarrow> int" where
  "monitoring_port_of args = (case arg_monitoring_port args of None \<Rightarrow> 8000 | Some p \<Rightarrow> p)"

definition debug_of :: "cli_args \<Rightarrow> bool" where
  "debug_of args = (case arg_debug args of None \<Rightarrow> False | Some b \<Rightarrow> b)"

definition detect_memory_leaks_of :: "cli_args \<Rightarrow> bool" where
  "detect_memory_leaks_of args = arg_detect_memory_leaks args"

text \<open>
  \<^verbatim>\<open>datahub_actions(standalone_mode=False, **kwargs)\<close>: the group is invoked by the CLI
  library. The definition covers the runs in which the library resolves the sub-command
  and hands its outcome on as it is: \<^verbatim>\<open>--version\<close> prints the program name and version
  and makes the call return 0 without running the callback; otherwise the callback runs,
  then the sub-command is invoked with the context object the callback left, and the call
  returns what the sub-command returns or raises what it raises. The sub-command tree is
  a parameter: it takes the context object and may do anything to the world; its outcome
  stands for what leaves the call. Left out are the library's own exits before the
  callback (\<^verbatim>\<open>--help\<close>, a missing or unknown sub-command) and its conversions of what
  is raised inside the call (\<open>EOFError\<close> and \<open>KeyboardInterrupt\<close> into \<open>Abort\<close>, a
  broken pipe into exit status 1, an \<open>Exit\<close> into a returned status). The facts about
  \<^verbatim>\<open>main\<close> below take the outcome of this call as a hypothesis, so they do not depend
  on what is left out; the facts about the sub-command are about the runs that reach it.
\<close>

type_synonym subcommand = "py_value \<Rightarrow> world \<Rightarrow> (py_exception + py_value) \<times> world"

definition group_main ::
  "runtime \<Rightarrow> cli_args \<Rightarrow> py_value \<Rightarrow> subcommand \<Rightarrow> world
     \<Rightarrow> (py_exception + py_value) \<times> world" where
  "group_main rt args obj sub w =
     (if arg_version args
      then (Inr (PyInt 0),
            record_event (Echo (package_name rt @ '', version '' @ nice_version_name rt)) w)
      else (case datahub_actions rt obj (enable_monitoring_of args) (monitoring_port_of args)
                   (debug_of args) (detect_memory_leaks_of args) w of
              (Inl exc, w') \<Rightarrow> (Inl exc, w')
            | (Inr obj', w') \<Rightarrow> sub obj' (record_event (Invoke obj') w')))"

subsection \<open>main\<close>

text \<open>
  \<^verbatim>\<open>def main(**kwargs)\<close>, lines 139 to 165. \<^verbatim>\<open>sys.exit(v)\<close> raises \<open>SystemExit\<close> with
  argument \<open>v\<close>, inside the \<^verbatim>\<open>try\<close>; the three \<^verbatim>\<open>except\<close> clauses are tried in the order
  written; an exception none of them matches leaves \<^verbatim>\<open>main\<close>. The result is the
  exception that leaves \<^verbatim>\<open>main\<close>.
\<close>

definition main ::
  "runtime \<Rightarrow> cli_args \<Rightarrow> py_value \<Rightarrow> subcommand \<Rightarrow> world \<Rightarrow> py_exception \<times> world" where
  "main rt args obj sub w0 =
     (let (r, w) = group_main rt args obj sub w0;
          raised = (case r of Inr v \<Rightarrow> PyExc SystemExit v | Inl exc \<Rightarrow> exc)
      in if isinstance raised Abort then (PyExc SystemExit (PyInt 1), w)
         else if isinstance raised ClickException
         then (PyExc SystemExit (PyInt 1), record_event (Show raised) w)
         else if isinstance raised Exception
         then (PyExc SystemExit (PyInt 1),
               exec [logger_error Module_logger
                       (stackprinter_format rt raised
                          \<lparr>line_wrap = MAX_CONTENT_WIDTH,
                           truncate_vals = 10 * MAX_CONTENT_WIDTH,
                           suppressed_paths = [''lib/python.*/site-packages/click/''],
                           show_vals = False\<rparr>),
                     logger_info Module_logger
                       (''DataHub Actions version: '' @ package_version rt
                          @ '' at '' @ package_file rt),
                     logger_info Module_logger
                       (''Python version: '' @ sys_version rt @ '' at '' @ sys_executable rt
                          @ '' on '' @ platform_platform rt)] w)
         else (raised, w))"

text \<open>
  The exit status of the process when an exception leaves the top level: a
  \<open>SystemExit\<close> gives its argument (\<open>None\<close> is 0, of a number the process status keeps
  the low eight bits, anything else is printed and gives 1); any other exception prints
  a traceback and gives 1.
\<close>

fun exit_status :: "py_exception \<Rightarrow> int" where
  "exit_status (PyExc SystemExit PyNone) = 0"
| "exit_status (PyExc SystemExit (PyInt n)) = n mod 256"
| "exit_status (PyExc SystemExit (PyBool b)) = (if b then 1 else 0)"
| "exit_status e = 1"

section \<open>The state the callback builds\<close>

text \<open>
  The condition of line 124: \<^verbatim>\<open>debug or get_boolean_env_variable("DATAHUB_DEBUG", False)\<close>.
\<close>

definition debug_mode :: "runtime \<Rightarrow> bool \<Rightarrow> bool" where
  "debug_mode rt debug = (debug \<or> get_boolean_env_variable rt ''DATAHUB_DEBUG'' False)"

text \<open>
  The state reached at line 131 in a process that has just imported the module, written
  out; \<open>configured_state\<close> below proves that the callback computes it. The first
  argument is the value of \<^verbatim>\<open>debug\<close>, the second the value of the condition.
\<close>

definition configured :: "bool \<Rightarrow> bool \<Rightarrow> world" where
  "configured debug dm =
     \<lparr>loggers = (\<lambda>n. case n of
          Root_logger \<Rightarrow>
            \<lparr>l_level = (if dm then INFO else WARNING), l_handlers = [0], l_propagate = True\<rparr>
        | Datahub_logger \<Rightarrow>
            \<lparr>l_level = (if dm then DEBUG else INFO), l_handlers = [1, 2, 3],
             l_propagate = False\<rparr>
        | Module_logger \<Rightarrow>
            \<lparr>l_level = NOTSET, l_handlers = [], l_propagate = True\<rparr>),
      handlers = (\<lambda>h.
          if h = 0 then Some \<lparr>h_kind = StreamHandler Stderr, h_level = NOTSET,
                               h_filters = [], h_formatter = Some BASE_LOGGING_FORMAT\<rparr>
          else if h = 1 then Some \<lparr>h_kind = StreamHandler Stdout,
                               h_level = (if dm then DEBUG else INFO),
                               h_filters = [LogFilter INFO],
                               h_formatter = Some BASE_LOGGING_FORMAT\<rparr>
          else if h = 2 then Some \<lparr>h_kind = StreamHandler Stderr, h_level = WARNING,
                               h_filters = [], h_formatter = Some BASE_LOGGING_FORMAT\<rparr>
          else if h = 3 then Some \<lparr>h_kind = TimedRotatingFileHandler LOGGING_FILE_LOCATION
                                          ''midnight'' 1 10,
                               h_level = (if dm then DEBUG else INFO),
                               h_filters = [], h_formatter = Some BASE_LOGGING_FORMAT\<rparr>
          else None),
      next_handler = 4,
      manager_disable = 0,
      trace =
        [Logging (NewHandler 0 (StreamHandler Stderr)),
         Logging (SetFormatter 0 BASE_LOGGING_FORMAT),
         Logging (AddHandler Root_logger 0),
         Logging (NewHandler 1 (StreamHandler Stdout)),
         Logging (AddFilter 1 (LogFilter INFO)),
         Logging (HandlerSetLevel 1 INFO),
         Logging (SetFormatter 1 BASE_LOGGING_FORMAT),
         Logging (NewHandler 2 (StreamHandler Stderr)),
         Logging (HandlerSetLevel 2 WARNING),
         Logging (SetFormatter 2 BASE_LOGGING_FORMAT),
         Logging (NewHandler 3
                    (TimedRotatingFileHandler LOGGING_FILE_LOCATION ''midnight'' 1 10)),
         Logging (HandlerSetLevel 3 INFO),
         Logging (SetFormatter 3 BASE_LOGGING_FORMAT),
         Logging (AddHandler Datahub_logger 1),
         Logging (AddHandler Datahub_logger 2),
         Logging (AddHandler Datahub_logger 3),
         Logging (SetPropagate Datahub_logger False)]
        @ (if debug then [] else [GetEnv ''DATAHUB_DEBUG''])
        @ (if dm
           then [Logging (LoggerSetLevel Root_logger INFO),
                 Logging (HandlerSetLevel 1 DEBUG),
                 Logging (HandlerSetLevel 3 DEBUG),
                 Logging (LoggerSetLevel Datahub_logger DEBUG)]
           else [Logging (LoggerSetLevel Root_logger WARNING),
                 Logging (LoggerSetLevel Datahub_logger INFO)])\<rparr>"

text \<open>The value the callback leaves in \<^verbatim>\<open>ctx.obj\<close>.\<close>

definition context_object :: "py_value \<Rightarrow> bool \<Rightarrow> py_value" where
  "context_object ctx_obj detect_memory_leaks =
     PyDict (AList.update ''detect_memory_leaks'' (PyBool detect_memory_leaks)
               (ensure_object_dict ctx_obj))"

subsection \<open>The dedicated configuration\<close>

text \<open>
  A world has the dedicated configuration when the logger \<^verbatim>\<open>datahub_actions\<close>, the
  module logger below it, and the three handlers are as the callback leaves them. Nothing
  is said about the root logger or about any other handler.
\<close>

definition dedicated_as_configured :: "bool \<Rightarrow> world \<Rightarrow> bool" where
  "dedicated_as_configured dm w =
     (loggers w Datahub_logger = loggers (configured False dm) Datahub_logger
      \<and> loggers w Module_logger = loggers (configured False dm) Module_logger
      \<and> handlers w 1 = handlers (configured False dm) 1
      \<and> handlers w 2 = handlers (configured False dm) 2
      \<and> handlers w 3 = handlers (configured False dm) 3
      \<and> manager_disable w = 0)"

text \<open>The state of a fresh process once the group callback has run on the given options.\<close>

definition bootstrapped :: "runtime \<Rightarrow> cli_args \<Rightarrow> py_value \<Rightarrow> world" where
  "bootstrapped rt args obj =
     snd (datahub_actions rt obj (enable_monitoring_of args) (monitoring_port_of args)
            (debug_of args) (detect_memory_leaks_of args) module_import)"

section \<open>Sample inputs\<close>

text \<open>
  A runtime in which nothing fails and the environment toggle has the given value, and a
  few command lines and sub-commands.
\<close>

definition sample_runtime :: "bool \<Rightarrow> runtime" where
  "sample_runtime toggle =
     \<lparr>get_boolean_env_variable = (\<lambda>key dflt. if key = ''DATAHUB_DEBUG'' then toggle else dflt),
      open_failure = (\<lambda>path. None),
      bind_failure = (\<lambda>port. None),
      stackprinter_format = (\<lambda>exc opts. ''Traceback''),
      package_name = ''acryl-datahub-actions'',
      nice_version_name = ''0.1.0'',
      package_version = ''0.1.0'',
      package_file = ''/site-packages/datahub_actions/__init__.py'',
      sys_version = ''3.10.12'',
      sys_executable = ''/usr/bin/python3'',
      platform_platform = ''Linux-x86_64''\<rparr>"

definition plain_args :: cli_args where
  "plain_args =
     \<lparr>arg_enable_monitoring = False, arg_monitoring_port = None, arg_debug = None,
      arg_version = False, arg_detect_memory_leaks = False\<rparr>"

definition no_debug_args :: cli_args where
  "no_debug_args = plain_args\<lparr>arg_debug := Some False\<rparr>"

definition debug_args :: cli_args where
  "debug_args = plain_args\<lparr>arg_debug := Some True\<rparr>"

definition monitoring_args :: cli_args where
  "monitoring_args = plain_args\<lparr>arg_enable_monitoring := True, arg_monitoring_port := Some 9999\<rparr>"

definition leak_args :: cli_args where
  "leak_args = plain_args\<lparr>arg_detect_memory_leaks := True\<rparr>"

definition raising :: "py_exception \<Rightarrow> subcommand" where
  "raising exc = (\<lambda>obj w. (Inl exc, w))"

definition returning :: "py_value \<Rightarrow> subcommand" where
  "returning v = (\<lambda>obj w. (Inr v, w))"

section \<open>Evaluating the callback\<close>

text \<open>The hierarchy walked by the two loops is the one the parents give.\<close>

lemma ancestry_parent:
  "ancestry n = n # (case parent n of None \<Rightarrow> [] | Some p \<Rightarrow> ancestry p)"
  by (cases n) simp_all

lemmas config_defs =
  new_handler_def exec_def record_event_def update_handler_def update_logger_def
  addFilter_def handler_setLevel_def setFormatter_def addHandler_def set_propagate_def
  logger_setLevel_def

lemma module_import_eq:
  "module_import =
     \<lparr>loggers = (\<lambda>n. \<lparr>l_level = (if n = Root_logger then WARNING else NOTSET),
                       l_handlers = [], l_propagate = True\<rparr>)
                 (Root_logger := \<lparr>l_level = WARNING, l_handlers = [0], l_propagate = True\<rparr>),
      handlers = (\<lambda>h. None)(0 \<mapsto> \<lparr>h_kind = StreamHandler Stderr, h_level = NOTSET,
                                      h_filters = [],
                                      h_formatter = Some BASE_LOGGING_FORMAT\<rparr>),
      next_handler = Suc 0,
      manager_disable = 0,
      trace = [Logging (NewHandler 0 (StreamHandler Stderr)),
               Logging (SetFormatter 0 BASE_LOGGING_FORMAT),
               Logging (AddHandler Root_logger 0)]\<rparr>"
  by (simp add: module_import_def basicConfig_def fresh_interpreter_def config_defs Let_def)

lemma world_eqI:
  assumes "\<And>n. loggers w n = loggers w' n" "\<And>h. handlers w h = handlers w' h"
    "next_handler w = next_handler w'" "manager_disable w = manager_disable w'"
    "trace w = trace w'"
  shows "(w::world) = w'"
proof -
  have "loggers w = loggers w'" "handlers w = handlers w'"
    using assms(1,2) by (simp_all add: fun_eq_iff)
  with assms(3-5) show ?thesis by simp
qed

text \<open>Lines 102 to 131: the logging configuration.\<close>

lemma configured_state:
  assumes "open_failure rt LOGGING_FILE_LOCATION = None" "\<not> em"
  shows "snd (datahub_actions rt obj em port debug dml module_import)
           = configured debug (debug_mode rt debug)"
proof (rule world_eqI)
  note ev = module_import_eq config_defs Let_def configured_def eval_nat_numeral
  show "loggers (snd (datahub_actions rt obj em port debug dml module_import)) n
          = loggers (configured debug (debug_mode rt debug)) n" for n
    using assms unfolding debug_mode_def datahub_actions_def Let_def case_prod_beta
    by (cases debug; cases "get_boolean_env_variable rt ''DATAHUB_DEBUG'' False"; cases n)
       (simp_all add: ev)
  show "handlers (snd (datahub_actions rt obj em port debug dml module_import)) h
          = handlers (configured debug (debug_mode rt debug)) h" for h
    using assms unfolding debug_mode_def datahub_actions_def Let_def case_prod_beta
    by (cases debug; cases "get_boolean_env_variable rt ''DATAHUB_DEBUG'' False")
       (simp_all add: ev)
  show "next_handler (snd (datahub_actions rt obj em port debug dml module_import))
          = next_handler (configured debug (debug_mode rt debug))"
    using assms unfolding debug_mode_def datahub_actions_def Let_def case_prod_beta
    by (cases debug; cases "get_boolean_env_variable rt ''DATAHUB_DEBUG'' False")
       (simp_all add: ev)
  show "manager_disable (snd (datahub_actions rt obj em port debug dml module_import))
          = manager_disable (configured debug (debug_mode rt debug))"
    using assms unfolding debug_mode_def datahub_actions_def Let_def case_prod_beta
    by (cases debug; cases "get_boolean_env_variable rt ''DATAHUB_DEBUG'' False")
       (simp_all add: ev)
  show "trace (snd (datahub_actions rt obj em port debug dml module_import))
          = trace (configured debug (debug_mode rt debug))"
    using assms unfolding debug_mode_def datahub_actions_def Let_def case_prod_beta
    by (cases debug; cases "get_boolean_env_variable rt ''DATAHUB_DEBUG'' False")
       (simp_all add: ev)
qed

text \<open>Lines 132 to 136, on top of the configuration.\<close>

lemma datahub_actions_tail:
  "datahub_actions rt obj em port debug dml w0 =
     (case datahub_actions rt obj False port debug dml w0 of
        (Inl exc, w) \<Rightarrow> (Inl exc, w)
      | (Inr v, w) \<Rightarrow>
          if em
          then (case bind_failure rt port of
                  Some exc \<Rightarrow> (Inl exc, w)
                | None \<Rightarrow> (Inr v, record_event (StartHttpServer port) w))
          else (Inr v, w))"
  unfolding datahub_actions_def Let_def case_prod_beta
  by (cases em; cases "open_failure rt LOGGING_FILE_LOCATION"; cases "bind_failure rt port")
     simp_all

lemma datahub_actions_value:
  assumes "open_failure rt LOGGING_FILE_LOCATION = None"
  shows "fst (datahub_actions rt obj False port debug dml w0) = Inr (context_object obj dml)"
  using assms unfolding datahub_actions_def Let_def case_prod_beta context_object_def
  by simp

lemma datahub_actions_module_import:
  assumes "open_failure rt LOGGING_FILE_LOCATION = None"
  shows "datahub_actions rt obj em port debug dml module_import =
     (if em
      then (case bind_failure rt port of
              Some exc \<Rightarrow> (Inl exc, configured debug (debug_mode rt debug))
            | None \<Rightarrow>
                (Inr (context_object obj dml),
                 record_event (StartHttpServer port) (configured debug (debug_mode rt debug))))
      else (Inr (context_object obj dml), configured debug (debug_mode rt debug)))"
proof -
  have "datahub_actions rt obj False port debug dml module_import
          = (Inr (context_object obj dml), configured debug (debug_mode rt debug))"
    using datahub_actions_value [OF assms, of obj port debug dml module_import]
      configured_state [OF assms, of False obj port debug dml]
    by (simp add: prod_eq_iff)
  then show ?thesis
    by (subst datahub_actions_tail) simp
qed

text \<open>When the log file cannot be opened, nothing has been attached yet.\<close>

lemma datahub_actions_open_failure:
  assumes "open_failure rt LOGGING_FILE_LOCATION = Some exc"
  shows "fst (datahub_actions rt obj em port debug dml w0) = Inl exc"
    and "loggers (snd (datahub_actions rt obj em port debug dml w0)) = loggers w0"
  using assms unfolding datahub_actions_def Let_def case_prod_beta
  by (simp_all add: config_defs Let_def split: option.splits)

section \<open>What the dedicated logger writes\<close>

lemma dedicated_configured: "dedicated_as_configured dm (configured debug dm)"
  by (simp add: dedicated_as_configured_def configured_def)

lemma dedicated_record_event:
  "dedicated_as_configured dm (record_event e w) = dedicated_as_configured dm w"
  by (simp add: dedicated_as_configured_def record_event_def)

lemma dedicated_after_callback:
  assumes "open_failure rt LOGGING_FILE_LOCATION = None"
  shows "dedicated_as_configured (debug_mode rt debug)
           (snd (datahub_actions rt obj em port debug dml module_import))"
  by (simp add: datahub_actions_module_import [OF assms] dedicated_configured
        dedicated_record_event split: option.splits)

lemmas level_defs = NOTSET_def DEBUG_def INFO_def WARNING_def ERROR_def

lemma emissions_dedicated:
  assumes "dedicated_as_configured dm w" "n \<noteq> Root_logger"
  shows "emissions w n level msg =
           (if level < (if dm then DEBUG else INFO) then []
            else (if level \<le> INFO
                  then [Emit (Console Stdout) \<lparr>levelno = level, origin = n, message = msg\<rparr>]
                  else [])
               @ (if WARNING \<le> level
                  then [Emit (Console Stderr) \<lparr>levelno = level, origin = n, message = msg\<rparr>]
                  else [])
               @ [Emit (LogFile LOGGING_FILE_LOCATION)
                    \<lparr>levelno = level, origin = n, message = msg\<rparr>])"
proof -
  from assms(1) have c:
    "loggers w Datahub_logger =
       \<lparr>l_level = (if dm then DEBUG else INFO), l_handlers = [1, 2, 3], l_propagate = False\<rparr>"
    "loggers w Module_logger = \<lparr>l_level = NOTSET, l_handlers = [], l_propagate = True\<rparr>"
    "handlers w 1 = Some \<lparr>h_kind = StreamHandler Stdout, h_level = (if dm then DEBUG else INFO),
                          h_filters = [LogFilter INFO],
                          h_formatter = Some BASE_LOGGING_FORMAT\<rparr>"
    "handlers w 2 = Some \<lparr>h_kind = StreamHandler Stderr, h_level = WARNING,
                          h_filters = [], h_formatter = Some BASE_LOGGING_FORMAT\<rparr>"
    "handlers w 3 = Some \<lparr>h_kind = TimedRotatingFileHandler LOGGING_FILE_LOCATION
                                     ''midnight'' 1 10,
                          h_level = (if dm then DEBUG else INFO),
                          h_filters = [], h_formatter = Some BASE_LOGGING_FORMAT\<rparr>"
    "manager_disable w = 0"
    by (simp_all add: dedicated_as_configured_def configured_def)
  from c(3) have c1: "handlers w (Suc 0) = Some \<lparr>h_kind = StreamHandler Stdout,
      h_level = (if dm then DEBUG else INFO), h_filters = [LogFilter INFO],
      h_formatter = Some BASE_LOGGING_FORMAT\<rparr>"
    by simp
  from assms(2) consider "n = Datahub_logger" | "n = Module_logger"
    by (cases n) simp_all
  then show ?thesis
  proof cases
    case 1
    then show ?thesis
      by (cases dm)
         (simp_all add: emissions_def isEnabledFor_def getEffectiveLevel_def callHandlers_def
            handler_handle_def c c1 level_defs)
  next
    case 2
    then show ?thesis
      by (cases dm)
         (simp_all add: emissions_def isEnabledFor_def getEffectiveLevel_def callHandlers_def
            handler_handle_def c c1 level_defs)
  qed
qed

lemmas sample_defs =
  sample_runtime_def plain_args_def no_debug_args_def debug_args_def monitoring_args_def
  leak_args_def raising_def returning_def
  enable_monitoring_of_def monitoring_port_of_def debug_of_def detect_memory_leaks_of_def

lemma bootstrapped_eq:
  assumes "open_failure rt LOGGING_FILE_LOCATION = None"
  shows "bootstrapped rt args obj =
     (if arg_enable_monitoring args \<and> bind_failure rt (monitoring_port_of args) = None
      then record_event (StartHttpServer (monitoring_port_of args))
             (configured (debug_of args) (debug_mode rt (debug_of args)))
      else configured (debug_of args) (debug_mode rt (debug_of args)))"
  by (simp add: bootstrapped_def datahub_actions_module_import [OF assms]
        enable_monitoring_of_def split: option.splits)

lemma bootstrapped_dedicated:
  assumes "open_failure rt LOGGING_FILE_LOCATION = None"
  shows "dedicated_as_configured (debug_mode rt (debug_of args)) (bootstrapped rt args obj)"
  unfolding bootstrapped_def by (rule dedicated_after_callback [OF assms])

lemma dedicated_root_irrelevant:
  assumes "dedicated_as_configured dm w"
  shows "dedicated_as_configured dm
           (w\<lparr>loggers := (loggers w)(Root_logger := root'),
              handlers := (\<lambda>h. if h \<in> set (l_handlers (loggers w Datahub_logger))
                                then handlers w h else other h)\<rparr>)"
  using assms by (simp add: dedicated_as_configured_def configured_def)

lemma bootstrapped_handlers:
  assumes "open_failure rt LOGGING_FILE_LOCATION = None"
  shows "handlers (bootstrapped rt args obj)
           = handlers (configured False (debug_mode rt (debug_of args)))"
    and "loggers (bootstrapped rt args obj)
           = loggers (configured False (debug_mode rt (debug_of args)))"
    and "next_handler (bootstrapped rt args obj) = 4"
    and "manager_disable (bootstrapped rt args obj) = 0"
  by (simp_all add: bootstrapped_eq [OF assms] configured_def record_event_def)

text \<open>The sample inputs, evaluated.\<close>

lemma sample_facts:
  "open_failure (sample_runtime t) path = None"
  "bind_failure (sample_runtime t) port = None"
  "debug_mode (sample_runtime t) d = (d \<or> t)"
  "debug_of plain_args = False"
  "debug_of debug_args = True"
  "debug_of no_debug_args = False"
  "debug_of monitoring_args = False"
  "debug_of leak_args = False"
  "arg_version plain_args = False"
  "arg_version monitoring_args = False"
  "arg_version leak_args = False"
  "arg_enable_monitoring plain_args = False"
  "arg_enable_monitoring monitoring_args = True"
  "arg_enable_monitoring leak_args = False"
  "arg_detect_memory_leaks plain_args = False"
  "arg_detect_memory_leaks monitoring_args = False"
  "arg_detect_memory_leaks leak_args = True"
  "monitoring_port_of plain_args = 8000"
  "monitoring_port_of monitoring_args = 9999"
  by (simp_all add: sample_defs debug_mode_def)

section \<open>Facts about dispatch and main\<close>

text \<open>What a record writes depends on the loggers, the handlers and the disable level only.\<close>

lemma first_level_cong:
  assumes "loggers w' = loggers w"
  shows "first_level w' cs = first_level w cs"
  by (induction cs) (simp_all add: assms)

lemma offer_cong:
  assumes "handlers w' = handlers w"
  shows "offer w' r hs = offer w r hs"
  by (induction hs) (simp_all add: assms split: option.splits)

lemma walk_cong:
  assumes "loggers w' = loggers w" "handlers w' = handlers w"
  shows "walk w' r cs = walk w r cs"
  by (induction cs) (simp_all add: assms(1) offer_cong [OF assms(2)] Let_def)

lemma emissions_cong:
  assumes "loggers w' = loggers w" "handlers w' = handlers w"
    "manager_disable w' = manager_disable w"
  shows "emissions w' n level msg = emissions w n level msg"
  by (simp add: emissions_def isEnabledFor_def getEffectiveLevel_def callHandlers_def
        first_level_cong [OF assms(1)] walk_cong [OF assms(1,2)] assms(3))

lemma logger_log_config:
  "loggers (logger_log n level msg w) = loggers w"
  "handlers (logger_log n level msg w) = handlers w"
  "manager_disable (logger_log n level msg w) = manager_disable w"
  "trace (logger_log n level msg w) = trace w @ LogCall n level msg # emissions w n level msg"
  by (simp_all add: logger_log_def)

lemma emissions_logger_log:
  "emissions (logger_log n' level' msg' w) n level msg = emissions w n level msg"
  by (rule emissions_cong) (simp_all add: logger_log_config)

text \<open>The three statements of the last \<^verbatim>\<open>except\<close> clause.\<close>

lemma report_trace:
  "trace (exec [logger_error Module_logger m1, logger_info Module_logger m2,
                logger_info Module_logger m3] w)
     = trace w
       @ LogCall Module_logger ERROR m1 # emissions w Module_logger ERROR m1
       @ LogCall Module_logger INFO m2 # emissions w Module_logger INFO m2
       @ LogCall Module_logger INFO m3 # emissions w Module_logger INFO m3"
  by (simp add: exec_def logger_error_def logger_info_def logger_log_config
        emissions_logger_log)

lemma report_config:
  "loggers (exec [logger_error Module_logger m1, logger_info Module_logger m2,
                  logger_info Module_logger m3] w) = loggers w"
  "handlers (exec [logger_error Module_logger m1, logger_info Module_logger m2,
                   logger_info Module_logger m3] w) = handlers w"
  by (simp_all add: exec_def logger_error_def logger_info_def logger_log_config)

text \<open>A \<open>SystemExit\<close> matches none of the three clauses.\<close>

lemma SystemExit_not_caught:
  "\<not> isinstance (PyExc SystemExit v) Abort"
  "\<not> isinstance (PyExc SystemExit v) ClickException"
  "\<not> isinstance (PyExc SystemExit v) Exception"
  by (simp_all add: isinstance_def)

text \<open>
  In a fresh process, when neither the log file nor the port fails and \<^verbatim>\<open>--version\<close> is
  not given, the sub-command is invoked on the state the callback leaves.
\<close>

lemma group_main_dispatch:
  assumes "\<not> arg_version args"
    and "open_failure rt LOGGING_FILE_LOCATION = None"
    and "arg_enable_monitoring args \<longrightarrow> bind_failure rt (monitoring_port_of args) = None"
  shows "group_main rt args obj sub module_import
           = sub (context_object obj (arg_detect_memory_leaks args))
               (record_event (Invoke (context_object obj (arg_detect_memory_leaks args)))
                  (bootstrapped rt args obj))"
  using assms
  by (simp add: group_main_def bootstrapped_def datahub_actions_module_import [OF assms(2)]
        enable_monitoring_of_def detect_memory_leaks_of_def)

text \<open>The last \<^verbatim>\<open>except\<close> clause of \<^verbatim>\<open>main\<close>, with its constants evaluated.\<close>

lemma main_unhandled:
  assumes "group_main rt args obj sub w0 = (Inl e, w)"
    and "isinstance e Exception"
    and "\<not> isinstance e Abort"
    and "\<not> isinstance e ClickException"
  shows "main rt args obj sub w0
          = (PyExc SystemExit (PyInt 1),
             exec [logger_error Module_logger
                     (stackprinter_format rt e
                        \<lparr>line_wrap = 120, truncate_vals = 1200,
                         suppressed_paths = [''lib/python.*/site-packages/click/''],
                         show_vals = False\<rparr>),
                   logger_info Module_logger
                     (''DataHub Actions version: '' @ package_version rt
                        @ '' at '' @ package_file rt),
                   logger_info Module_logger
                     (''Python version: '' @ sys_version rt @ '' at '' @ sys_executable rt
                        @ '' on '' @ platform_platform rt)] w)"
  using assms by (simp add: main_def MAX_CONTENT_WIDTH_def)

text \<open>
  When the log file cannot be opened the callback raises before any handler is attached
  and before any level is set.
\<close>

lemma open_failure_state:
  assumes "open_failure rt LOGGING_FILE_LOCATION = Some exc"
  shows "fst (datahub_actions rt obj em port debug dml module_import) = Inl exc"
    and "loggers (snd (datahub_actions rt obj em port debug dml module_import))
           = loggers module_import"
    and "handlers (snd (datahub_actions rt obj em port debug dml module_import)) 0
           = handlers module_import 0"
    and "manager_disable (snd (datahub_actions rt obj em port debug dml module_import)) = 0"
  using assms unfolding datahub_actions_def Let_def case_prod_beta
  by (simp_all add: module_import_eq config_defs Let_def)

lemma emissions_unconfigured:
  assumes "loggers w = loggers module_import" "handlers w 0 = handlers module_import 0"
    "manager_disable w = 0"
  shows "emissions w Module_logger level msg
           = (if WARNING \<le> level
              then [Emit (Console Stderr)
                      \<lparr>levelno = level, origin = Module_logger, message = msg\<rparr>]
              else [])"
  using assms
  by (simp add: emissions_def isEnabledFor_def getEffectiveLevel_def callHandlers_def
        handler_handle_def module_import_eq level_defs)

section \<open>Severity policy\<close>

text \<open>
  C1, as the code has it. In a run whose log file opens, with debug mode meaning that
  \<^verbatim>\<open>--debug\<close> was passed or the environment toggle is true: in debug mode the root
  threshold is \<open>INFO\<close> and the dedicated logger, its standard-output handler and its file
  handler are at \<open>DEBUG\<close>; otherwise the root threshold is \<open>WARNING\<close> and the dedicated
  logger is at \<open>INFO\<close> (its two handlers stay at \<open>INFO\<close>). The environment is read
  exactly when the value of the debug option is false, so \<^verbatim>\<open>--debug\<close> wins over the
  environment without reading it, whereas \<^verbatim>\<open>--no-debug\<close> does not override a true toggle.
\<close>

theorem severity_policy:
  assumes "open_failure rt LOGGING_FILE_LOCATION = None"
  shows "let w = bootstrapped rt args obj;
             dm = (debug_of args \<or> get_boolean_env_variable rt ''DATAHUB_DEBUG'' False)
         in l_level (loggers w Root_logger) = (if dm then INFO else WARNING)
            \<and> l_level (loggers w Datahub_logger) = (if dm then DEBUG else INFO)
            \<and> l_handlers (loggers w Datahub_logger) = [1, 2, 3]
            \<and> map_option h_kind (handlers w 1) = Some (StreamHandler Stdout)
            \<and> map_option h_level (handlers w 1) = Some (if dm then DEBUG else INFO)
            \<and> map_option h_kind (handlers w 3)
                = Some (TimedRotatingFileHandler LOGGING_FILE_LOCATION ''midnight'' 1 10)
            \<and> map_option h_level (handlers w 3) = Some (if dm then DEBUG else INFO)
            \<and> (GetEnv ''DATAHUB_DEBUG'' \<in> set (trace w)) = (\<not> debug_of args)
            \<and> (arg_debug args = Some True \<longrightarrow> dm \<and> GetEnv ''DATAHUB_DEBUG'' \<notin> set (trace w))
            \<and> (arg_debug args \<noteq> Some True
                  \<longrightarrow> dm = get_boolean_env_variable rt ''DATAHUB_DEBUG'' False)"
  by (cases "arg_debug args")
     (auto simp add: bootstrapped_eq [OF assms] configured_def debug_mode_def record_event_def
        debug_of_def Let_def)

theorem severity_policy_witness:
  "open_failure (sample_runtime True) LOGGING_FILE_LOCATION = None
   \<and> l_level (loggers (bootstrapped (sample_runtime True) debug_args PyNone) Root_logger) = 20
   \<and> l_level (loggers (bootstrapped (sample_runtime True) debug_args PyNone) Datahub_logger) = 10
   \<and> map_option h_level (handlers (bootstrapped (sample_runtime True) debug_args PyNone) 1)
        = Some 10
   \<and> map_option h_level (handlers (bootstrapped (sample_runtime True) debug_args PyNone) 3)
        = Some 10
   \<and> GetEnv ''DATAHUB_DEBUG'' \<notin> set (trace (bootstrapped (sample_runtime True) debug_args PyNone))"
proof -
  have h: "open_failure (sample_runtime True) LOGGING_FILE_LOCATION = None"
    by (simp add: sample_runtime_def)
  show ?thesis
    using h severity_policy [OF h, of debug_args PyNone]
    by (simp add: Let_def sample_defs level_defs)
qed

text \<open>
  C1 as the specification states it fails for \<^verbatim>\<open>--no-debug\<close>: with the flag given
  explicitly and the environment toggle true, the thresholds are those of debug mode.
\<close>

theorem explicit_no_debug_overridden:
  "arg_debug no_debug_args = Some False
   \<and> get_boolean_env_variable (sample_runtime True) ''DATAHUB_DEBUG'' False
   \<and> l_level (loggers (bootstrapped (sample_runtime True) no_debug_args PyNone) Root_logger)
        = INFO
   \<and> l_level (loggers (bootstrapped (sample_runtime True) no_debug_args PyNone) Datahub_logger)
        = DEBUG
   \<and> l_level (loggers (bootstrapped (sample_runtime True) no_debug_args PyNone) Datahub_logger)
        \<noteq> INFO"
proof -
  have h: "open_failure (sample_runtime True) LOGGING_FILE_LOCATION = None"
    by (simp add: sample_runtime_def)
  show ?thesis
    unfolding bootstrapped_eq [OF h]
    by (simp add: configured_def debug_mode_def record_event_def sample_defs level_defs)
qed

section \<open>Routing by severity\<close>

text \<open>
  C2. A record logged through the dedicated logger (the logger \<^verbatim>\<open>datahub_actions\<close> or
  the module logger below it) at level \<open>INFO\<close> or below is written to standard output
  and to the log file, and to nothing else, as soon as the logger lets it through (its
  level is at least the logger's threshold, \<open>INFO\<close>, or \<open>DEBUG\<close> in debug mode; below
  the threshold it is written nowhere); it is never written to standard error. At
  level \<open>WARNING\<close> or above it is written to standard error and to the log file, and to
  nothing else; it is never written to standard output.
\<close>

theorem severity_routing:
  assumes "open_failure rt LOGGING_FILE_LOCATION = None" "n \<noteq> Root_logger"
  shows "let w = bootstrapped rt args obj;
             r = \<lparr>levelno = level, origin = n, message = msg\<rparr>;
             threshold = (if debug_mode rt (debug_of args) then DEBUG else INFO)
         in (level \<le> INFO \<longrightarrow>
               set (emissions w n level msg)
                 \<subseteq> {Emit (Console Stdout) r, Emit (LogFile LOGGING_FILE_LOCATION) r}
               \<and> (\<forall>r'. Emit (Console Stderr) r' \<notin> set (emissions w n level msg)))
            \<and> (threshold \<le> level \<and> level \<le> INFO \<longrightarrow>
               emissions w n level msg
                 = [Emit (Console Stdout) r, Emit (LogFile LOGGING_FILE_LOCATION) r])
            \<and> (level < threshold \<longrightarrow> emissions w n level msg = [])
            \<and> (WARNING \<le> level \<longrightarrow>
               emissions w n level msg
                 = [Emit (Console Stderr) r, Emit (LogFile LOGGING_FILE_LOCATION) r]
               \<and> (\<forall>r'. Emit (Console Stdout) r' \<notin> set (emissions w n level msg)))"
  by (simp add: emissions_dedicated [OF bootstrapped_dedicated [OF assms(1)] assms(2)]
        level_defs Let_def)

theorem severity_routing_witness:
  "open_failure (sample_runtime False) LOGGING_FILE_LOCATION = None
   \<and> Module_logger \<noteq> Root_logger
   \<and> emissions (bootstrapped (sample_runtime False) plain_args PyNone) Module_logger 40 ''failed''
       = [Emit (Console Stderr) \<lparr>levelno = 40, origin = Module_logger, message = ''failed''\<rparr>,
          Emit (LogFile ''/tmp/datahub/logs/actions/actions.out'')
            \<lparr>levelno = 40, origin = Module_logger, message = ''failed''\<rparr>]
   \<and> emissions (bootstrapped (sample_runtime False) plain_args PyNone) Module_logger 20 ''started''
       = [Emit (Console Stdout) \<lparr>levelno = 20, origin = Module_logger, message = ''started''\<rparr>,
          Emit (LogFile ''/tmp/datahub/logs/actions/actions.out'')
            \<lparr>levelno = 20, origin = Module_logger, message = ''started''\<rparr>]
   \<and> Emit (Console Stderr) \<lparr>levelno = 20, origin = Module_logger, message = ''started''\<rparr>
       \<notin> set (emissions (bootstrapped (sample_runtime False) plain_args PyNone)
                 Module_logger 20 ''started'')
   \<and> emissions (bootstrapped (sample_runtime False) debug_args PyNone) Datahub_logger 10 ''detail''
       = [Emit (Console Stdout) \<lparr>levelno = 10, origin = Datahub_logger, message = ''detail''\<rparr>,
          Emit (LogFile ''/tmp/datahub/logs/actions/actions.out'')
            \<lparr>levelno = 10, origin = Datahub_logger, message = ''detail''\<rparr>]
   \<and> emissions (bootstrapped (sample_runtime False) plain_args PyNone) Datahub_logger 10 ''detail''
       = []"
proof -
  have h: "open_failure (sample_runtime False) LOGGING_FILE_LOCATION = None"
    by (simp add: sample_runtime_def)
  have m: "Module_logger \<noteq> Root_logger" "Datahub_logger \<noteq> Root_logger"
    by simp_all
  show ?thesis
    using h severity_routing [OF h m(1), where args = plain_args and obj = PyNone and level = 40
        and msg = "''failed''"]
      severity_routing [OF h m(1), where args = plain_args and obj = PyNone and level = 20
        and msg = "''started''"]
      severity_routing [OF h m(2), where args = debug_args and obj = PyNone and level = 10
        and msg = "''detail''"]
      severity_routing [OF h m(2), where args = plain_args and obj = PyNone and level = 10
        and msg = "''detail''"]
    by (simp add: Let_def level_defs LOGGING_FILE_LOCATION_def sample_facts)
qed

section \<open>Exception translation\<close>

text \<open>
  C3. Whatever the invocation of the group does, \<^verbatim>\<open>main\<close> handles it in this order. An
  exception that is an \<open>Abort\<close> makes the process exit with status 1 and nothing is
  written, even if it is also a \<open>ClickException\<close>. Otherwise a \<open>ClickException\<close> is
  shown (its own message; nothing is logged) and the status is 1. Otherwise any
  \<open>Exception\<close> gives status 1. When the invocation returns, its value is passed to
  \<^verbatim>\<open>sys.exit\<close> and the \<open>SystemExit\<close> passes the three clauses; a command that returns
  \<open>None\<close> (or 0, as \<^verbatim>\<open>--version\<close> does) gives status 0.
\<close>

theorem exception_translation:
  assumes "group_main rt args obj sub w0 = (r, w)"
  shows "(\<forall>e. r = Inl e \<and> isinstance e Abort
             \<longrightarrow> main rt args obj sub w0 = (PyExc SystemExit (PyInt 1), w))
         \<and> (\<forall>e. r = Inl e \<and> \<not> isinstance e Abort \<and> isinstance e ClickException
             \<longrightarrow> main rt args obj sub w0
                   = (PyExc SystemExit (PyInt 1), record_event (Show e) w))
         \<and> (\<forall>e. r = Inl e \<and> \<not> isinstance e Abort \<and> \<not> isinstance e ClickException
                 \<and> isinstance e Exception
             \<longrightarrow> exit_status (fst (main rt args obj sub w0)) = 1)
         \<and> (\<forall>v. r = Inr v \<longrightarrow> main rt args obj sub w0 = (PyExc SystemExit v, w))
         \<and> (r = Inr PyNone \<or> r = Inr (PyInt 0)
             \<longrightarrow> exit_status (fst (main rt args obj sub w0)) = 0)
         \<and> exit_status (PyExc SystemExit (PyInt 1)) = 1"
  using assms by (simp add: main_def SystemExit_not_caught)

theorem exception_translation_witness:
  "main (sample_runtime False) plain_args PyNone
       (raising (PyExc (Derived ''AbortedUsage'' [Abort, UsageError]) (PyStr ''stop'')))
       module_import
     = (PyExc SystemExit (PyInt 1),
        snd (group_main (sample_runtime False) plain_args PyNone
               (raising (PyExc (Derived ''AbortedUsage'' [Abort, UsageError]) (PyStr ''stop'')))
               module_import))
   \<and> main (sample_runtime False) plain_args PyNone
        (raising (PyExc UsageError (PyStr ''No such command'')))
        module_import
     = (PyExc SystemExit (PyInt 1),
        record_event (Show (PyExc UsageError (PyStr ''No such command'')))
          (snd (group_main (sample_runtime False) plain_args PyNone
                  (raising (PyExc UsageError (PyStr ''No such command''))) module_import)))
   \<and> exit_status (fst (main (sample_runtime False) plain_args PyNone
                          (raising (PyExc OSError (PyStr ''disk full''))) module_import)) = 1
   \<and> exit_status (fst (main (sample_runtime False) plain_args PyNone
                          (returning PyNone) module_import)) = 0"
proof -
  let ?rt = "sample_runtime False"
  have g: "group_main ?rt plain_args PyNone sub module_import
             = (fst (group_main ?rt plain_args PyNone sub module_import),
                snd (group_main ?rt plain_args PyNone sub module_import))" for sub
    by simp
  have d: "\<not> arg_version plain_args" "open_failure ?rt LOGGING_FILE_LOCATION = None"
    "arg_enable_monitoring plain_args
       \<longrightarrow> bind_failure ?rt (monitoring_port_of plain_args) = None"
    by (simp_all add: sample_defs)
  have r: "fst (group_main ?rt plain_args PyNone (raising e) module_import) = Inl e"
    "fst (group_main ?rt plain_args PyNone (returning v) module_import) = Inr v" for e v
    by (simp_all add: group_main_dispatch [OF d] raising_def returning_def)
  have i: "isinstance (PyExc (Derived ''AbortedUsage'' [Abort, UsageError]) (PyStr ''stop'')) Abort"
    "\<not> isinstance (PyExc UsageError (PyStr ''No such command'')) Abort"
    "isinstance (PyExc UsageError (PyStr ''No such command'')) ClickException"
    "\<not> isinstance (PyExc OSError (PyStr ''disk full'')) Abort"
    "\<not> isinstance (PyExc OSError (PyStr ''disk full'')) ClickException"
    "isinstance (PyExc OSError (PyStr ''disk full'')) Exception"
    by (simp_all add: isinstance_def)
  show ?thesis
    using exception_translation [OF g [of "raising (PyExc (Derived ''AbortedUsage''
              [Abort, UsageError]) (PyStr ''stop''))"]]
      exception_translation [OF g [of "raising (PyExc UsageError (PyStr ''No such command''))"]]
      exception_translation [OF g [of "raising (PyExc OSError (PyStr ''disk full''))"]]
      exception_translation [OF g [of "returning PyNone"]]
      r i
    by simp
qed

section \<open>Reporting an unhandled exception\<close>

text \<open>
  C4. When the invocation raises an \<open>Exception\<close> that is neither an \<open>Abort\<close> nor a
  \<open>ClickException\<close>, \<^verbatim>\<open>main\<close> makes exactly three logging calls on the module
  logger, in this order: the stack trace at level \<open>ERROR\<close>, formatted with line wrap
  120, values truncated at 1200, the CLI library's frames suppressed and no values
  shown; then two lines at level \<open>INFO\<close>, the tool's version and location, and the
  runtime's version, executable and platform. Then the process exits with status 1. The
  logging state is not changed. When the dedicated configuration is in place, the stack
  trace is written to standard error and the log file, and each of the two lines to
  standard output and the log file.
\<close>

theorem unhandled_exception_report:
  assumes "group_main rt args obj sub w0 = (Inl e, w)"
    and "isinstance e Exception"
    and "\<not> isinstance e Abort"
    and "\<not> isinstance e ClickException"
  shows "let stack = stackprinter_format rt e
                       \<lparr>line_wrap = 120, truncate_vals = 1200,
                        suppressed_paths = [''lib/python.*/site-packages/click/''],
                        show_vals = False\<rparr>;
             tool = ''DataHub Actions version: '' @ package_version rt
                      @ '' at '' @ package_file rt;
             python = ''Python version: '' @ sys_version rt @ '' at '' @ sys_executable rt
                        @ '' on '' @ platform_platform rt;
             w' = snd (main rt args obj sub w0)
         in fst (main rt args obj sub w0) = PyExc SystemExit (PyInt 1)
            \<and> exit_status (fst (main rt args obj sub w0)) = 1
            \<and> trace w'
                = trace w
                  @ LogCall Module_logger ERROR stack # emissions w Module_logger ERROR stack
                  @ LogCall Module_logger INFO tool # emissions w Module_logger INFO tool
                  @ LogCall Module_logger INFO python # emissions w Module_logger INFO python
            \<and> loggers w' = loggers w
            \<and> handlers w' = handlers w
            \<and> (\<forall>dm. dedicated_as_configured dm w \<longrightarrow>
                  trace w'
                    = trace w
                      @ [LogCall Module_logger ERROR stack,
                         Emit (Console Stderr)
                           \<lparr>levelno = ERROR, origin = Module_logger, message = stack\<rparr>,
                         Emit (LogFile LOGGING_FILE_LOCATION)
                           \<lparr>levelno = ERROR, origin = Module_logger, message = stack\<rparr>,
                         LogCall Module_logger INFO tool,
                         Emit (Console Stdout)
                           \<lparr>levelno = INFO, origin = Module_logger, message = tool\<rparr>,
                         Emit (LogFile LOGGING_FILE_LOCATION)
                           \<lparr>levelno = INFO, origin = Module_logger, message = tool\<rparr>,
                         LogCall Module_logger INFO python,
                         Emit (Console Stdout)
                           \<lparr>levelno = INFO, origin = Module_logger, message = python\<rparr>,
                         Emit (LogFile LOGGING_FILE_LOCATION)
                           \<lparr>levelno = INFO, origin = Module_logger, message = python\<rparr>])"
proof -
  define stack where "stack = stackprinter_format rt e
      \<lparr>line_wrap = 120, truncate_vals = 1200,
       suppressed_paths = [''lib/python.*/site-packages/click/''], show_vals = False\<rparr>"
  define tool where "tool = ''DataHub Actions version: '' @ package_version rt
      @ '' at '' @ package_file rt"
  define python where "python = ''Python version: '' @ sys_version rt @ '' at ''
      @ sys_executable rt @ '' on '' @ platform_platform rt"
  define w' where "w' = snd (main rt args obj sub w0)"
  have m: "Module_logger \<noteq> Root_logger"
    by simp
  have main_eq: "main rt args obj sub w0
      = (PyExc SystemExit (PyInt 1),
         exec [logger_error Module_logger stack, logger_info Module_logger tool,
               logger_info Module_logger python] w)"
    unfolding stack_def tool_def python_def by (rule main_unhandled [OF assms])
  have t: "trace w'
      = trace w
        @ LogCall Module_logger ERROR stack # emissions w Module_logger ERROR stack
        @ LogCall Module_logger INFO tool # emissions w Module_logger INFO tool
        @ LogCall Module_logger INFO python # emissions w Module_logger INFO python"
    unfolding w'_def main_eq by (simp add: report_trace)
  have c: "loggers w' = loggers w" "handlers w' = handlers w"
    unfolding w'_def main_eq by (simp_all add: report_config)
  have d: "trace w'
      = trace w
        @ [LogCall Module_logger ERROR stack,
           Emit (Console Stderr) \<lparr>levelno = ERROR, origin = Module_logger, message = stack\<rparr>,
           Emit (LogFile LOGGING_FILE_LOCATION)
             \<lparr>levelno = ERROR, origin = Module_logger, message = stack\<rparr>,
           LogCall Module_logger INFO tool,
           Emit (Console Stdout) \<lparr>levelno = INFO, origin = Module_logger, message = tool\<rparr>,
           Emit (LogFile LOGGING_FILE_LOCATION)
             \<lparr>levelno = INFO, origin = Module_logger, message = tool\<rparr>,
           LogCall Module_logger INFO python,
           Emit (Console Stdout) \<lparr>levelno = INFO, origin = Module_logger, message = python\<rparr>,
           Emit (LogFile LOGGING_FILE_LOCATION)
             \<lparr>levelno = INFO, origin = Module_logger, message = python\<rparr>]"
    if "dedicated_as_configured dm w" for dm
    unfolding t by (simp add: emissions_dedicated [OF that m] level_defs)
  have x: "fst (main rt args obj sub w0) = PyExc SystemExit (PyInt 1)"
    "exit_status (fst (main rt args obj sub w0)) = 1"
    by (simp_all add: main_eq)
  show ?thesis
    using x t c d
    unfolding Let_def stack_def [symmetric] tool_def [symmetric] python_def [symmetric]
      w'_def [symmetric]
    by blast
qed

theorem unhandled_exception_report_witness:
  "group_main (sample_runtime False) plain_args PyNone
       (raising (PyExc (Derived ''PipelineError'' [Exception]) (PyStr ''boom''))) module_import
     = (Inl (PyExc (Derived ''PipelineError'' [Exception]) (PyStr ''boom'')),
        record_event (Invoke (context_object PyNone False))
          (bootstrapped (sample_runtime False) plain_args PyNone))
   \<and> isinstance (PyExc (Derived ''PipelineError'' [Exception]) (PyStr ''boom'')) Exception
   \<and> \<not> isinstance (PyExc (Derived ''PipelineError'' [Exception]) (PyStr ''boom'')) Abort
   \<and> \<not> isinstance (PyExc (Derived ''PipelineError'' [Exception]) (PyStr ''boom''))
         ClickException
   \<and> exit_status (fst (main (sample_runtime False) plain_args PyNone
          (raising (PyExc (Derived ''PipelineError'' [Exception]) (PyStr ''boom'')))
          module_import)) = 1
   \<and> filter (\<lambda>ev. \<not> is_logging_call ev)
        (trace (snd (main (sample_runtime False) plain_args PyNone
           (raising (PyExc (Derived ''PipelineError'' [Exception]) (PyStr ''boom'')))
           module_import)))
     = [GetEnv ''DATAHUB_DEBUG'',
        Invoke (PyDict [(''detect_memory_leaks'', PyBool False)]),
        LogCall Module_logger 40 ''Traceback'',
        Emit (Console Stderr)
          \<lparr>levelno = 40, origin = Module_logger, message = ''Traceback''\<rparr>,
        Emit (LogFile ''/tmp/datahub/logs/actions/actions.out'')
          \<lparr>levelno = 40, origin = Module_logger, message = ''Traceback''\<rparr>,
        LogCall Module_logger 20
          ''DataHub Actions version: 0.1.0 at /site-packages/datahub_actions/__init__.py'',
        Emit (Console Stdout)
          \<lparr>levelno = 20, origin = Module_logger,
           message = ''DataHub Actions version: 0.1.0 at /site-packages/datahub_actions/__init__.py''\<rparr>,
        Emit (LogFile ''/tmp/datahub/logs/actions/actions.out'')
          \<lparr>levelno = 20, origin = Module_logger,
           message = ''DataHub Actions version: 0.1.0 at /site-packages/datahub_actions/__init__.py''\<rparr>,
        LogCall Module_logger 20 ''Python version: 3.10.12 at /usr/bin/python3 on Linux-x86_64'',
        Emit (Console Stdout)
          \<lparr>levelno = 20, origin = Module_logger,
           message = ''Python version: 3.10.12 at /usr/bin/python3 on Linux-x86_64''\<rparr>,
        Emit (LogFile ''/tmp/datahub/logs/actions/actions.out'')
          \<lparr>levelno = 20, origin = Module_logger,
           message = ''Python version: 3.10.12 at /usr/bin/python3 on Linux-x86_64''\<rparr>]"
proof -
  let ?rt = "sample_runtime False"
  let ?e = "PyExc (Derived ''PipelineError'' [Exception]) (PyStr ''boom'')"
  let ?w = "record_event (Invoke (context_object PyNone False)) (bootstrapped ?rt plain_args PyNone)"
  have d: "\<not> arg_version plain_args" "open_failure ?rt LOGGING_FILE_LOCATION = None"
    "arg_enable_monitoring plain_args
       \<longrightarrow> bind_failure ?rt (monitoring_port_of plain_args) = None"
    by (simp_all add: sample_defs)
  have g: "group_main ?rt plain_args PyNone (raising ?e) module_import = (Inl ?e, ?w)"
    unfolding group_main_dispatch [OF d] by (simp add: raising_def plain_args_def)
  have i: "isinstance ?e Exception" "\<not> isinstance ?e Abort" "\<not> isinstance ?e ClickException"
    by (simp_all add: isinstance_def)
  have n: "\<not> debug_mode ?rt (debug_of plain_args)"
    by (simp add: debug_mode_def sample_defs)
  have c: "dedicated_as_configured False ?w"
    using bootstrapped_dedicated [OF d(2), of plain_args PyNone] n
    by (simp add: dedicated_record_event)
  have t: "trace ?w = trace (configured False False)
             @ [Invoke (PyDict [(''detect_memory_leaks'', PyBool False)])]"
    by (simp add: bootstrapped_eq [OF d(2)] sample_facts record_event_def context_object_def)
  have s: "stackprinter_format ?rt ex opts = ''Traceback''" "package_version ?rt = ''0.1.0''"
    "package_file ?rt = ''/site-packages/datahub_actions/__init__.py''"
    "sys_version ?rt = ''3.10.12''" "sys_executable ?rt = ''/usr/bin/python3''"
    "platform_platform ?rt = ''Linux-x86_64''" for ex opts
    by (simp_all add: sample_runtime_def)
  have "trace (snd (main ?rt plain_args PyNone (raising ?e) module_import))
          = trace ?w
            @ [LogCall Module_logger ERROR ''Traceback'',
               Emit (Console Stderr)
                 \<lparr>levelno = ERROR, origin = Module_logger, message = ''Traceback''\<rparr>,
               Emit (LogFile LOGGING_FILE_LOCATION)
                 \<lparr>levelno = ERROR, origin = Module_logger, message = ''Traceback''\<rparr>,
               LogCall Module_logger INFO
                 (''DataHub Actions version: '' @ ''0.1.0'' @ '' at ''
                    @ ''/site-packages/datahub_actions/__init__.py''),
               Emit (Console Stdout)
                 \<lparr>levelno = INFO, origin = Module_logger,
                  message = ''DataHub Actions version: '' @ ''0.1.0'' @ '' at ''
                    @ ''/site-packages/datahub_actions/__init__.py''\<rparr>,
               Emit (LogFile LOGGING_FILE_LOCATION)
                 \<lparr>levelno = INFO, origin = Module_logger,
                  message = ''DataHub Actions version: '' @ ''0.1.0'' @ '' at ''
                    @ ''/site-packages/datahub_actions/__init__.py''\<rparr>,
               LogCall Module_logger INFO
                 (''Python version: '' @ ''3.10.12'' @ '' at '' @ ''/usr/bin/python3''
                    @ '' on '' @ ''Linux-x86_64''),
               Emit (Console Stdout)
                 \<lparr>levelno = INFO, origin = Module_logger,
                  message = ''Python version: '' @ ''3.10.12'' @ '' at '' @ ''/usr/bin/python3''
                    @ '' on '' @ ''Linux-x86_64''\<rparr>,
               Emit (LogFile LOGGING_FILE_LOCATION)
                 \<lparr>levelno = INFO, origin = Module_logger,
                  message = ''Python version: '' @ ''3.10.12'' @ '' at '' @ ''/usr/bin/python3''
                    @ '' on '' @ ''Linux-x86_64''\<rparr>]"
    using c unhandled_exception_report [OF g i] unfolding Let_def s by blast
  moreover have "exit_status (fst (main ?rt plain_args PyNone (raising ?e) module_import)) = 1"
    using unhandled_exception_report [OF g i] unfolding Let_def by blast
  ultimately show ?thesis
    using g i
    by (simp add: t level_defs LOGGING_FILE_LOCATION_def configured_def)
qed

text \<open>
  A remark on the case where the exception is raised by the constructor of the file
  handler: the dedicated logger has no handler and no level yet, so the stack trace
  goes to the root logger's handler on standard error, and the two lines at level
  \<open>INFO\<close> are logged but written nowhere, the effective level being the root's
  \<open>WARNING\<close>.
\<close>

lemma report_when_log_file_fails:
  assumes "\<not> arg_version args"
    and "open_failure rt LOGGING_FILE_LOCATION = Some exc"
    and "isinstance exc Exception"
    and "\<not> isinstance exc Abort"
    and "\<not> isinstance exc ClickException"
  shows "trace (snd (main rt args obj sub module_import))
           = trace (snd (group_main rt args obj sub module_import))
             @ [LogCall Module_logger ERROR
                  (stackprinter_format rt exc
                     \<lparr>line_wrap = 120, truncate_vals = 1200,
                      suppressed_paths = [''lib/python.*/site-packages/click/''],
                      show_vals = False\<rparr>),
                Emit (Console Stderr)
                  \<lparr>levelno = ERROR, origin = Module_logger,
                   message = stackprinter_format rt exc
                     \<lparr>line_wrap = 120, truncate_vals = 1200,
                      suppressed_paths = [''lib/python.*/site-packages/click/''],
                      show_vals = False\<rparr>\<rparr>,
                LogCall Module_logger INFO
                  (''DataHub Actions version: '' @ package_version rt
                     @ '' at '' @ package_file rt),
                LogCall Module_logger INFO
                  (''Python version: '' @ sys_version rt @ '' at '' @ sys_executable rt
                     @ '' on '' @ platform_platform rt)]"
proof -
  let ?d = "datahub_actions rt obj (enable_monitoring_of args) (monitoring_port_of args)
              (debug_of args) (detect_memory_leaks_of args) module_import"
  have g: "group_main rt args obj sub module_import = (Inl exc, snd ?d)"
    using assms(1) open_failure_state(1) [OF assms(2), of obj "enable_monitoring_of args"
        "monitoring_port_of args" "debug_of args" "detect_memory_leaks_of args"]
    by (cases ?d) (simp add: group_main_def)
  have e: "emissions (snd ?d) Module_logger level msg
             = (if WARNING \<le> level
                then [Emit (Console Stderr)
                        \<lparr>levelno = level, origin = Module_logger, message = msg\<rparr>]
                else [])" for level msg
    by (rule emissions_unconfigured) (simp_all add: open_failure_state [OF assms(2)])
  show ?thesis
    unfolding main_unhandled [OF g assms(3-5)] g
    by (simp add: report_trace e level_defs)
qed

section \<open>The metrics listener\<close>

text \<open>
  C5. Take a fresh process in which the log file opens, the port (when monitoring is
  asked for) can be bound, and \<^verbatim>\<open>--version\<close> is not given. The trace up to the
  invocation of the sub-command is the trace of the same run without
  \<^verbatim>\<open>--enable-monitoring\<close>, which consists of logging calls and the read of the
  environment, then the start of the listener if and only if the flag is set, then the
  invocation. So the listener is started exactly when the flag is set, on the port given
  by \<^verbatim>\<open>--monitoring-port\<close> (8000 when the option is absent), after every logging call of
  the configuration and before the sub-command.
\<close>

theorem monitoring_listener:
  assumes "\<not> arg_version args"
    and "open_failure rt LOGGING_FILE_LOCATION = None"
    and "arg_enable_monitoring args \<longrightarrow> bind_failure rt (monitoring_port_of args) = None"
  shows "let cfg = bootstrapped rt (args\<lparr>arg_enable_monitoring := False\<rparr>) obj;
             ctx = context_object obj (arg_detect_memory_leaks args);
             started = (if arg_enable_monitoring args
                        then [StartHttpServer (monitoring_port_of args)] else []);
             wd = cfg\<lparr>trace := trace cfg @ started @ [Invoke ctx]\<rparr>
         in (\<forall>sub. group_main rt args obj sub module_import = sub ctx wd)
            \<and> list_all (\<lambda>ev. is_logging_call ev \<or> ev = GetEnv ''DATAHUB_DEBUG'') (trace cfg)
            \<and> (\<forall>p. (StartHttpServer p \<in> set (trace wd))
                     = (arg_enable_monitoring args \<and> p = monitoring_port_of args))
            \<and> loggers wd = loggers (bootstrapped rt args obj)
            \<and> handlers wd = handlers (bootstrapped rt args obj)
            \<and> (arg_monitoring_port args = None \<longrightarrow> monitoring_port_of args = 8000)
            \<and> (\<forall>p. arg_monitoring_port args = Some p \<longrightarrow> monitoring_port_of args = p)"
proof -
  let ?dm = "debug_mode rt (debug_of args)"
  let ?c = "configured (debug_of args) ?dm"
  have cfg: "bootstrapped rt (args\<lparr>arg_enable_monitoring := False\<rparr>) obj = ?c"
    by (simp add: bootstrapped_eq [OF assms(2)] debug_of_def)
  have b: "bootstrapped rt args obj
             = (if arg_enable_monitoring args
                then record_event (StartHttpServer (monitoring_port_of args)) ?c else ?c)"
    using assms(3) by (simp add: bootstrapped_eq [OF assms(2)])
  have g: "group_main rt args obj sub module_import
             = sub (context_object obj (arg_detect_memory_leaks args))
                 (?c\<lparr>trace := trace ?c
                        @ (if arg_enable_monitoring args
                           then [StartHttpServer (monitoring_port_of args)] else [])
                        @ [Invoke (context_object obj (arg_detect_memory_leaks args))]\<rparr>)"
    for sub
    by (simp add: group_main_dispatch [OF assms] b record_event_def)
  have l: "list_all (\<lambda>ev. is_logging_call ev \<or> ev = GetEnv ''DATAHUB_DEBUG'') (trace ?c)"
    by (simp add: configured_def)
  have s: "(StartHttpServer p \<in> set (trace ?c)) = False" for p
    by (auto simp add: configured_def)
  have c: "loggers (bootstrapped rt args obj) = loggers ?c"
    "handlers (bootstrapped rt args obj) = handlers ?c"
    by (simp_all add: b record_event_def)
  show ?thesis
    unfolding Let_def cfg
    by (auto simp add: g l s c monitoring_port_of_def)
qed

theorem monitoring_listener_witness:
  "\<not> arg_version monitoring_args
   \<and> open_failure (sample_runtime False) LOGGING_FILE_LOCATION = None
   \<and> arg_enable_monitoring monitoring_args
   \<and> bind_failure (sample_runtime False) (monitoring_port_of monitoring_args) = None
   \<and> group_main (sample_runtime False) monitoring_args PyNone (returning PyNone) module_import
       = (Inr PyNone,
          (bootstrapped (sample_runtime False)
             (monitoring_args\<lparr>arg_enable_monitoring := False\<rparr>) PyNone)
          \<lparr>trace := trace (bootstrapped (sample_runtime False)
                             (monitoring_args\<lparr>arg_enable_monitoring := False\<rparr>) PyNone)
                     @ [StartHttpServer 9999,
                        Invoke (PyDict [(''detect_memory_leaks'', PyBool False)])]\<rparr>)
   \<and> StartHttpServer 9999
       \<notin> set (trace (bootstrapped (sample_runtime False)
                        (monitoring_args\<lparr>arg_enable_monitoring := False\<rparr>) PyNone))"
proof -
  have d: "\<not> arg_version monitoring_args"
    "open_failure (sample_runtime False) LOGGING_FILE_LOCATION = None"
    "arg_enable_monitoring monitoring_args
       \<longrightarrow> bind_failure (sample_runtime False) (monitoring_port_of monitoring_args) = None"
    by (simp_all add: sample_facts)
  have a: "list_all (\<lambda>ev. is_logging_call ev \<or> ev = GetEnv ''DATAHUB_DEBUG'') evs
             \<Longrightarrow> StartHttpServer 9999 \<notin> set evs" for evs
    by (auto simp add: list_all_iff)
  show ?thesis
    using d a monitoring_listener [OF d, of PyNone]
    by (simp add: Let_def sample_facts context_object_def returning_def)
qed

section \<open>The three sinks and the file sink\<close>

text \<open>
  C6. Before the callback runs the dedicated logger has no handler; afterwards it has
  exactly three: a stream handler on standard output, a stream handler on standard error,
  and a \<^verbatim>\<open>TimedRotatingFileHandler\<close> on \<^verbatim>\<open>/tmp/datahub/logs/actions/actions.out\<close> with
  \<^verbatim>\<open>when="midnight"\<close>, \<^verbatim>\<open>interval=1\<close> and \<^verbatim>\<open>backupCount=10\<close>. The file handler has no
  filter and its level is \<open>INFO\<close> (\<open>DEBUG\<close> in debug mode), and a record logged through
  the dedicated logger reaches the file exactly when its level is at least that.
\<close>

theorem file_sink:
  assumes "open_failure rt LOGGING_FILE_LOCATION = None" "n \<noteq> Root_logger"
  shows "let w = bootstrapped rt args obj;
             dm = debug_mode rt (debug_of args)
         in l_handlers (loggers module_import Datahub_logger) = []
            \<and> l_handlers (loggers w Datahub_logger) = [1, 2, 3]
            \<and> length (l_handlers (loggers w Datahub_logger)) = 3
            \<and> map (\<lambda>h. map_option h_kind (handlers w h)) [1, 2, 3]
                = [Some (StreamHandler Stdout), Some (StreamHandler Stderr),
                   Some (TimedRotatingFileHandler ''/tmp/datahub/logs/actions/actions.out''
                           ''midnight'' 1 10)]
            \<and> map_option h_level (handlers w 3) = Some (if dm then DEBUG else INFO)
            \<and> map_option h_filters (handlers w 3) = Some []
            \<and> (Emit (LogFile ''/tmp/datahub/logs/actions/actions.out'')
                   \<lparr>levelno = level, origin = n, message = msg\<rparr>
                  \<in> set (emissions w n level msg))
                = ((if dm then DEBUG else INFO) \<le> level)"
  by (simp add: emissions_dedicated [OF bootstrapped_dedicated [OF assms(1)] assms(2)]
        bootstrapped_handlers [OF assms(1)] configured_def module_import_eq
        level_defs Let_def LOGGING_FILE_LOCATION_def)

theorem file_sink_witness:
  "open_failure (sample_runtime False) LOGGING_FILE_LOCATION = None
   \<and> Datahub_logger \<noteq> Root_logger
   \<and> l_handlers (loggers (bootstrapped (sample_runtime False) plain_args PyNone) Datahub_logger)
       = [1, 2, 3]
   \<and> map_option h_level (handlers (bootstrapped (sample_runtime False) plain_args PyNone) 3)
       = Some 20
   \<and> Emit (LogFile ''/tmp/datahub/logs/actions/actions.out'')
        \<lparr>levelno = 10, origin = Datahub_logger, message = ''detail''\<rparr>
       \<notin> set (emissions (bootstrapped (sample_runtime False) plain_args PyNone)
                 Datahub_logger 10 ''detail'')"
proof -
  have h: "open_failure (sample_runtime False) LOGGING_FILE_LOCATION = None"
    by (simp add: sample_runtime_def)
  have m: "Datahub_logger \<noteq> Root_logger"
    by simp
  have d: "\<not> debug_mode (sample_runtime False) (debug_of plain_args)"
    by (simp add: debug_mode_def sample_defs)
  show ?thesis
    using h d file_sink [OF h m, where args = plain_args and obj = PyNone and level = 10
        and msg = "''detail''"]
    by (simp add: Let_def level_defs)
qed

section \<open>Insulation from the root logger\<close>

text \<open>
  C7. After the callback the dedicated logger does not propagate, and what a record
  logged through it (or through the module logger below it) writes does not depend on the
  root logger: replacing the root logger by any other one (any level, any handler list)
  and every handler object other than the three dedicated ones by anything changes
  nothing of it.
\<close>

theorem propagation_disabled:
  assumes "open_failure rt LOGGING_FILE_LOCATION = None" "n \<noteq> Root_logger"
  shows "let w = bootstrapped rt args obj;
             w' = w\<lparr>loggers := (loggers w)(Root_logger := root'),
                    handlers := (\<lambda>h. if h \<in> set (l_handlers (loggers w Datahub_logger))
                                      then handlers w h else other h)\<rparr>
         in \<not> l_propagate (loggers w Datahub_logger)
            \<and> emissions w' n level msg = emissions w n level msg"
proof -
  let ?w = "bootstrapped rt args obj"
  let ?dm = "debug_mode rt (debug_of args)"
  have d: "dedicated_as_configured ?dm ?w"
    by (rule bootstrapped_dedicated [OF assms(1)])
  have p: "\<not> l_propagate (loggers ?w Datahub_logger)"
    by (simp add: bootstrapped_handlers [OF assms(1)] configured_def)
  show ?thesis
    using p
    by (simp add: Let_def emissions_dedicated [OF d assms(2)]
          emissions_dedicated [OF dedicated_root_irrelevant [OF d] assms(2)])
qed

theorem propagation_disabled_witness:
  "open_failure (sample_runtime False) LOGGING_FILE_LOCATION = None
   \<and> Datahub_logger \<noteq> Root_logger
   \<and> emissions
       ((bootstrapped (sample_runtime False) plain_args PyNone)
          \<lparr>loggers := (loggers (bootstrapped (sample_runtime False) plain_args PyNone))
                        (Root_logger := \<lparr>l_level = 50, l_handlers = [], l_propagate = True\<rparr>),
           handlers := (\<lambda>h. if h \<in> set (l_handlers (loggers
                                  (bootstrapped (sample_runtime False) plain_args PyNone)
                                  Datahub_logger))
                             then handlers (bootstrapped (sample_runtime False) plain_args PyNone) h
                             else None)\<rparr>)
       Datahub_logger 20 ''started''
     = emissions (bootstrapped (sample_runtime False) plain_args PyNone)
         Datahub_logger 20 ''started''"
proof -
  have h: "open_failure (sample_runtime False) LOGGING_FILE_LOCATION = None"
    by (simp add: sample_runtime_def)
  have m: "Datahub_logger \<noteq> Root_logger"
    by simp
  show ?thesis
    using h propagation_disabled [OF h m, where args = plain_args and obj = PyNone
        and root' = "\<lparr>l_level = 50, l_handlers = [], l_propagate = True\<rparr>"
        and other = "\<lambda>h. None" and level = 20 and msg = "''started''"]
    by (simp add: Let_def)
qed

section \<open>The invocation context\<close>

text \<open>
  C8. In a fresh process in which the callback completes, started without a context
  object of its own (\<^verbatim>\<open>ctx.obj\<close> is not a dict with entries), the sub-command is
  invoked with a dict that has exactly one entry: \<^verbatim>\<open>detect_memory_leaks\<close>, bound to
  whether \<^verbatim>\<open>--detect-memory-leaks\<close> was given. In general the callback keeps the
  entries of a dict already in \<^verbatim>\<open>ctx.obj\<close> and sets this key.
\<close>

theorem invocation_context:
  assumes "\<not> arg_version args"
    and "open_failure rt LOGGING_FILE_LOCATION = None"
    and "arg_enable_monitoring args \<longrightarrow> bind_failure rt (monitoring_port_of args) = None"
    and "ensure_object_dict obj = []"
  shows "(\<forall>sub. group_main rt args obj sub module_import
                  = sub (PyDict [(''detect_memory_leaks'', PyBool (arg_detect_memory_leaks args))])
                      (record_event
                         (Invoke (PyDict [(''detect_memory_leaks'',
                                           PyBool (arg_detect_memory_leaks args))]))
                         (bootstrapped rt args obj)))
         \<and> fst (datahub_actions rt obj (enable_monitoring_of args) (monitoring_port_of args)
                  (debug_of args) (detect_memory_leaks_of args) module_import)
             = Inr (PyDict [(''detect_memory_leaks'', PyBool (arg_detect_memory_leaks args))])
         \<and> length [(''detect_memory_leaks'', PyBool (arg_detect_memory_leaks args))] = 1
         \<and> (\<forall>obj0. fst (datahub_actions rt obj0 (enable_monitoring_of args)
                           (monitoring_port_of args) (debug_of args)
                           (detect_memory_leaks_of args) module_import)
                      = Inr (PyDict (AList.update ''detect_memory_leaks''
                                       (PyBool (arg_detect_memory_leaks args))
                                       (ensure_object_dict obj0))))"
  using assms
  by (simp add: group_main_dispatch [OF assms(1-3)] context_object_def
        datahub_actions_module_import [OF assms(2)] enable_monitoring_of_def
        detect_memory_leaks_of_def)

theorem invocation_context_witness:
  "\<not> arg_version leak_args
   \<and> open_failure (sample_runtime False) LOGGING_FILE_LOCATION = None
   \<and> \<not> arg_enable_monitoring leak_args
   \<and> ensure_object_dict PyNone = []
   \<and> fst (group_main (sample_runtime False) leak_args PyNone (\<lambda>obj w. (Inr obj, w))
            module_import)
       = Inr (PyDict [(''detect_memory_leaks'', PyBool True)])"
proof -
  have d: "\<not> arg_version leak_args"
    "open_failure (sample_runtime False) LOGGING_FILE_LOCATION = None"
    "arg_enable_monitoring leak_args
       \<longrightarrow> bind_failure (sample_runtime False) (monitoring_port_of leak_args) = None"
    "ensure_object_dict PyNone = []"
    by (simp_all add: sample_facts)
  show ?thesis
    using d invocation_context [OF d]
    by (simp add: sample_facts)
qed

section \<open>What debug mode changes\<close>

text \<open>
  C9. Compare a run in debug mode with a run that is not. The logging state differs in
  four thresholds only: the root logger's (\<open>INFO\<close> instead of \<open>WARNING\<close>), the dedicated
  logger's, the standard-output handler's and the file handler's (\<open>DEBUG\<close> instead of
  \<open>INFO\<close>). The standard-error handler keeps level \<open>WARNING\<close>, so in debug mode too no
  record below \<open>WARNING\<close> logged through the dedicated logger is written to standard
  error.
\<close>

theorem debug_mode_frame:
  assumes "open_failure rt LOGGING_FILE_LOCATION = None"
    and "open_failure rt' LOGGING_FILE_LOCATION = None"
    and "debug_mode rt (debug_of args)"
    and "\<not> debug_mode rt' (debug_of args')"
  shows "let wd = bootstrapped rt args obj;
             wn = bootstrapped rt' args' obj'
         in loggers wd
              = (loggers wn)
                  (Root_logger := (loggers wn Root_logger)\<lparr>l_level := INFO\<rparr>,
                   Datahub_logger := (loggers wn Datahub_logger)\<lparr>l_level := DEBUG\<rparr>)
            \<and> l_level (loggers wn Root_logger) = WARNING
            \<and> l_level (loggers wn Datahub_logger) = INFO
            \<and> (\<forall>h. handlers wd h
                      = (if h = 1 \<or> h = 3
                         then map_option (\<lambda>x. x\<lparr>h_level := DEBUG\<rparr>) (handlers wn h)
                         else handlers wn h))
            \<and> map_option h_level (handlers wn 1) = Some INFO
            \<and> map_option h_level (handlers wn 3) = Some INFO
            \<and> next_handler wd = next_handler wn
            \<and> manager_disable wd = manager_disable wn
            \<and> map_option h_kind (handlers wd 2) = Some (StreamHandler Stderr)
            \<and> map_option h_level (handlers wd 2) = Some WARNING
            \<and> (\<forall>n level msg r. n \<noteq> Root_logger \<and> level < WARNING
                  \<longrightarrow> Emit (Console Stderr) r \<notin> set (emissions wd n level msg))"
proof -
  let ?wd = "bootstrapped rt args obj"
  have d: "dedicated_as_configured True ?wd"
    using bootstrapped_dedicated [OF assms(1), of args obj] assms(3) by simp
  have e: "Emit (Console Stderr) r \<notin> set (emissions ?wd n level msg)"
    if "n \<noteq> Root_logger" "level < WARNING" for n level msg r
    using that by (simp add: emissions_dedicated [OF d that(1)] level_defs)
  have c: "loggers (configured False True)
             = (loggers (configured False False))
                 (Root_logger := (loggers (configured False False) Root_logger)\<lparr>l_level := INFO\<rparr>,
                  Datahub_logger :=
                    (loggers (configured False False) Datahub_logger)\<lparr>l_level := DEBUG\<rparr>)"
    by (auto simp add: configured_def fun_eq_iff split: logger_name.splits)
  show ?thesis
    using assms(3,4) e c
    by (simp add: Let_def bootstrapped_handlers [OF assms(1)] bootstrapped_handlers [OF assms(2)])
       (simp add: configured_def)
qed

theorem debug_mode_frame_witness:
  "open_failure (sample_runtime False) LOGGING_FILE_LOCATION = None
   \<and> debug_mode (sample_runtime False) (debug_of debug_args)
   \<and> \<not> debug_mode (sample_runtime False) (debug_of plain_args)
   \<and> map_option h_level (handlers (bootstrapped (sample_runtime False) debug_args PyNone) 2)
       = Some 30
   \<and> l_level (loggers (bootstrapped (sample_runtime False) plain_args PyNone) Root_logger)
       = 30
   \<and> Emit (Console Stderr) \<lparr>levelno = 10, origin = Module_logger, message = ''detail''\<rparr>
       \<notin> set (emissions (bootstrapped (sample_runtime False) debug_args PyNone)
                 Module_logger 10 ''detail'')"
proof -
  have h: "open_failure (sample_runtime False) LOGGING_FILE_LOCATION = None"
    by (simp add: sample_runtime_def)
  have d: "debug_mode (sample_runtime False) (debug_of debug_args)"
    by (simp add: debug_mode_def sample_defs)
  have n: "\<not> debug_mode (sample_runtime False) (debug_of plain_args)"
    by (simp add: debug_mode_def sample_defs)
  show ?thesis
    using h d n debug_mode_frame [OF h h d n, where obj = PyNone and obj' = PyNone]
    by (auto simp add: Let_def level_defs)
qed

text \<open>
  A remark on the scope: the statement is about records that go through the dedicated
  logger. A record logged through the root logger is handled by the stream handler that
  \<^verbatim>\<open>basicConfig\<close> installed at import, which writes to standard error whatever the
  root threshold lets through: from \<open>INFO\<close> on in debug mode.
\<close>

lemma root_logger_in_debug_mode:
  assumes "open_failure rt LOGGING_FILE_LOCATION = None"
    and "debug_mode rt (debug_of args)"
  shows "emissions (bootstrapped rt args obj) Root_logger level msg
           = (if INFO \<le> level
              then [Emit (Console Stderr)
                      \<lparr>levelno = level, origin = Root_logger, message = msg\<rparr>]
              else [])"
  using assms(2)
  by (simp add: emissions_def isEnabledFor_def getEffectiveLevel_def callHandlers_def
        handler_handle_def bootstrapped_handlers [OF assms(1)] configured_def level_defs)

section \<open>Standard output outside debug mode\<close>

text \<open>
  C10. Outside debug mode the standard-output handler has level \<open>INFO\<close> and a filter
  admitting levels up to \<open>INFO\<close>, so whatever record is offered to it, it writes the
  record exactly when the level is \<open>INFO\<close>; a record logged through the dedicated logger
  reaches standard output exactly when its level is \<open>INFO\<close>, and below \<open>INFO\<close> it is
  written nowhere, the dedicated logger's own level being \<open>INFO\<close>.
\<close>

theorem stdout_outside_debug_mode:
  assumes "open_failure rt LOGGING_FILE_LOCATION = None"
    and "\<not> debug_mode rt (debug_of args)"
    and "n \<noteq> Root_logger"
  shows "let w = bootstrapped rt args obj;
             r = \<lparr>levelno = level, origin = n, message = msg\<rparr>
         in handlers w 1
              = Some \<lparr>h_kind = StreamHandler Stdout, h_level = INFO,
                      h_filters = [LogFilter INFO],
                      h_formatter = Some BASE_LOGGING_FORMAT\<rparr>
            \<and> offer w lr [1]
                = (if levelno lr = INFO then [Emit (Console Stdout) lr] else [])
            \<and> l_level (loggers w Datahub_logger) = INFO
            \<and> (Emit (Console Stdout) r \<in> set (emissions w n level msg)) = (level = INFO)
            \<and> (\<forall>r'. Emit (Console Stdout) r' \<in> set (emissions w n level msg)
                       \<longrightarrow> levelno r' = INFO)
            \<and> (level < INFO \<longrightarrow> emissions w n level msg = [])"
proof -
  let ?w = "bootstrapped rt args obj"
  have d: "dedicated_as_configured False ?w"
    using bootstrapped_dedicated [OF assms(1), of args obj] assms(2) by simp
  have h1: "handlers ?w 1
              = Some \<lparr>h_kind = StreamHandler Stdout, h_level = INFO,
                      h_filters = [LogFilter INFO],
                      h_formatter = Some BASE_LOGGING_FORMAT\<rparr>"
    using assms(2) by (simp add: bootstrapped_handlers [OF assms(1)] configured_def)
  then have h1': "handlers ?w (Suc 0)
              = Some \<lparr>h_kind = StreamHandler Stdout, h_level = INFO,
                      h_filters = [LogFilter INFO],
                      h_formatter = Some BASE_LOGGING_FORMAT\<rparr>"
    by simp
  have o: "offer ?w lr [1]
             = (if levelno lr = INFO then [Emit (Console Stdout) lr] else [])"
    by (simp add: h1' handler_handle_def level_defs)
  have l: "l_level (loggers ?w Datahub_logger) = INFO"
    using assms(2) by (simp add: bootstrapped_handlers [OF assms(1)] configured_def)
  show ?thesis
    using h1 o l
    by (simp add: Let_def emissions_dedicated [OF d assms(3)] level_defs)
qed

theorem stdout_outside_debug_mode_witness:
  "open_failure (sample_runtime False) LOGGING_FILE_LOCATION = None
   \<and> \<not> debug_mode (sample_runtime False) (debug_of plain_args)
   \<and> Module_logger \<noteq> Root_logger
   \<and> emissions (bootstrapped (sample_runtime False) plain_args PyNone) Module_logger 10 ''detail''
       = []
   \<and> offer (bootstrapped (sample_runtime False) plain_args PyNone)
        \<lparr>levelno = 10, origin = Module_logger, message = ''detail''\<rparr> [1] = []"
proof -
  have h: "open_failure (sample_runtime False) LOGGING_FILE_LOCATION = None"
    by (simp add: sample_runtime_def)
  have n: "\<not> debug_mode (sample_runtime False) (debug_of plain_args)"
    by (simp add: debug_mode_def sample_defs)
  have m: "Module_logger \<noteq> Root_logger"
    by simp
  show ?thesis
    using h n stdout_outside_debug_mode [OF h n m, where obj = PyNone and level = 10
        and msg = "''detail''"
        and lr = "\<lparr>levelno = 10, origin = Module_logger, message = ''detail''\<rparr>"]
    by (simp add: Let_def level_defs)
qed

end
